theory Spec2Isabelle
  imports Complex_Main
begin

section \<open>The collaboration slice of the store\<close>

text \<open>
  The slice keeps the client's picture of one collaborative session: the cursors of the
  other users, the comments of every document, the edit lock, the participants, the
  connection flag and the last error. Each reducer mutates a draft of the state; here a
  reducer is a function from the state (and its payload) to the new state, or to the
  error it throws. The clock reading \<^verbatim>\<open>new Date().toISOString()\<close> is an argument
  of the reducer that takes it.

  Coordinates are numbers that the slice only stores and hands on, never computes with;
  comment ids are the integers that arrive in the payloads, compared with \<^verbatim>\<open>===\<close>.
\<close>

record Position =
  pos_x :: real
  pos_y :: real
  pos_page :: int

datatype Comment =
  Comment (c_id: int) (c_userId: string) (c_content: string) (c_position: Position)
    (c_createdAt: string) (c_replies: "Comment list")

record Cursor =
  cur_userId :: string
  cur_position :: Position
  cur_lastUpdate :: string

record DocumentLock =
  isLocked :: bool
  lockedBy :: "string option"
  lockedAt :: "string option"

text \<open>
  A \<^verbatim>\<open>Record<string, T>\<close> is a plain object used as a dictionary: the map holds its
  own keys.
\<close>

record CollaborationState =
  activeDocumentId :: "string option"
  cursors :: "string \<rightharpoonup> Cursor"
  comments :: "string \<rightharpoonup> Comment list"
  documentLock :: DocumentLock
  participants :: "string list"
  isConnected :: bool
  error :: "string option"

definition initialState :: CollaborationState where
  "initialState =
     \<lparr>activeDocumentId = None, cursors = Map.empty, comments = Map.empty,
      documentLock = \<lparr>isLocked = False, lockedBy = None, lockedAt = None\<rparr>,
      participants = [], isConnected = False, error = None\<rparr>"

subsection \<open>Reading and writing the keys of a plain object\<close>

text \<open>
  A plain object inherits from \<^verbatim>\<open>Object.prototype\<close>, and \<^verbatim>\<open>object[key]\<close> follows
  the prototype chain. A key that is not the object's own therefore reads as
  \<^verbatim>\<open>undefined\<close> only when the prototype does not have it either; for the property
  names of the prototype it reads as the inherited value, which is a function (or, for
  \<^verbatim>\<open>__proto__\<close>, the prototype itself): truthy, and neither an array nor anything
  with \<^verbatim>\<open>push\<close>, \<^verbatim>\<open>find\<close> or \<^verbatim>\<open>filter\<close>. The names are those of the standard
  prototype.
\<close>

definition prototypeKeys :: "string list" where
  "prototypeKeys =
     [''constructor'', ''__defineGetter__'', ''__defineSetter__'', ''hasOwnProperty'',
      ''__lookupGetter__'', ''__lookupSetter__'', ''isPrototypeOf'', ''propertyIsEnumerable'',
      ''toString'', ''valueOf'', ''__proto__'', ''toLocaleString'']"

definition inheritedKey :: "string \<Rightarrow> bool" where
  "inheritedKey k = (k \<in> set prototypeKeys)"

datatype 'a Lookup = Own 'a | Inherited | Missing

definition readKey :: "(string \<rightharpoonup> 'a) \<Rightarrow> string \<Rightarrow> 'a Lookup" where
  "readKey m k =
     (case m k of
        Some v \<Rightarrow> Own v
      | None \<Rightarrow> if inheritedKey k then Inherited else Missing)"

text \<open>
  What a reducer throws: the \<^verbatim>\<open>TypeError\<close> of calling a method that the value read
  does not have, and the error of the draft when the prototype of a draft is written.
  \<^verbatim>\<open>__proto__\<close> is an accessor of the prototype, so an assignment to that key of a
  draft runs its setter, which the draft refuses; an assignment to any other key makes
  the key the object's own.
\<close>

datatype ReducerError = TypeError | DraftError

definition assignKey :: "(string \<rightharpoonup> 'a) \<Rightarrow> string \<Rightarrow> 'a \<Rightarrow> ReducerError + (string \<rightharpoonup> 'a)" where
  "assignKey m k v = (if k = ''__proto__'' then Inl DraftError else Inr (m(k \<mapsto> v)))"

text \<open>
  The comments stored for a document: the array that is the own entry of the document id,
  and no comment when the object has no own entry for it.
\<close>

definition storedComments :: "CollaborationState \<Rightarrow> string \<Rightarrow> Comment list" where
  "storedComments state documentId =
     (case comments state documentId of None \<Rightarrow> [] | Some cs \<Rightarrow> cs)"

subsection \<open>The reducers\<close>

text \<open>
  \<^verbatim>\<open>state.comments[id] = state.comments[id] || []\<close>: an array is truthy even when empty
  and so is an inherited value, so the alternative is taken only when the key reads as
  \<^verbatim>\<open>undefined\<close>. Writing back an inherited value that the key already reads as
  writes nothing. A reducer that throws leaves nothing behind, whatever it had already
  written to the draft.
\<close>

definition setActiveDocument ::
  "string \<Rightarrow> CollaborationState \<Rightarrow> ReducerError + CollaborationState" where
  "setActiveDocument payload state =
     (if payload = ''__proto__'' then Inl DraftError
      else Inr (state\<lparr>activeDocumentId := Some payload,
                     cursors := Map.empty,
                     comments :=
                       (case readKey (comments state) payload of
                          Own cs \<Rightarrow> (comments state)(payload \<mapsto> cs)
                        | Missing \<Rightarrow> (comments state)(payload \<mapsto> [])
                        | Inherited \<Rightarrow> comments state),
                     documentLock := \<lparr>isLocked = False, lockedBy = None, lockedAt = None\<rparr>,
                     participants := []\<rparr>))"

definition updateCursor ::
  "string \<Rightarrow> string \<Rightarrow> Position \<Rightarrow> CollaborationState \<Rightarrow> ReducerError + CollaborationState" where
  "updateCursor now userId position state =
     (case assignKey (cursors state) userId
             \<lparr>cur_userId = userId, cur_position = position, cur_lastUpdate = now\<rparr> of
        Inl e \<Rightarrow> Inl e
      | Inr m \<Rightarrow> Inr (state\<lparr>cursors := m\<rparr>))"

definition removeCursor :: "string \<Rightarrow> CollaborationState \<Rightarrow> CollaborationState" where
  "removeCursor payload state = state\<lparr>cursors := (cursors state)(payload := None)\<rparr>"

text \<open>
  \<open>addComment\<close> creates the list when the key reads as \<^verbatim>\<open>undefined\<close> and then
  pushes; under an inherited key the value read has no \<^verbatim>\<open>push\<close>.
\<close>

definition addComment ::
  "string \<Rightarrow> Comment \<Rightarrow> CollaborationState \<Rightarrow> ReducerError + CollaborationState" where
  "addComment documentId comment state =
     (case readKey (comments state) documentId of
        Missing \<Rightarrow>
          (case assignKey (comments state) documentId [] of
             Inl e \<Rightarrow> Inl e
           | Inr m \<Rightarrow> Inr (state\<lparr>comments := m(documentId \<mapsto> [] @ [comment])\<rparr>))
      | Own cs \<Rightarrow> Inr (state\<lparr>comments := (comments state)(documentId \<mapsto> cs @ [comment])\<rparr>)
      | Inherited \<Rightarrow> Inl TypeError)"

text \<open>
  \<^verbatim>\<open>find\<close> returns the first element that satisfies the test, and the reducer
  then mutates that element where it stands in the array: \<open>modifyFirst\<close> rewrites the
  first match and keeps everything else.
\<close>

fun modifyFirst :: "('a \<Rightarrow> bool) \<Rightarrow> ('a \<Rightarrow> 'a) \<Rightarrow> 'a list \<Rightarrow> 'a list" where
  "modifyFirst P f [] = []"
| "modifyFirst P f (c # cs) = (if P c then f c # cs else c # modifyFirst P f cs)"

text \<open>The place of that first match: the number of elements before it.\<close>

definition firstIndex :: "('a \<Rightarrow> bool) \<Rightarrow> 'a list \<Rightarrow> nat" where
  "firstIndex P cs = length (takeWhile (\<lambda>c. \<not> P c) cs)"

definition setContent :: "string \<Rightarrow> Comment \<Rightarrow> Comment" where
  "setContent content c =
     Comment (c_id c) (c_userId c) content (c_position c) (c_createdAt c) (c_replies c)"

definition pushReply :: "Comment \<Rightarrow> Comment \<Rightarrow> Comment" where
  "pushReply reply c =
     Comment (c_id c) (c_userId c) (c_content c) (c_position c) (c_createdAt c)
       (c_replies c @ [reply])"

text \<open>
  \<^verbatim>\<open>state.comments[id]?.find(...)\<close>: the optional chaining stops at
  \<^verbatim>\<open>undefined\<close> only; an inherited value is asked for its \<^verbatim>\<open>find\<close>, which it does
  not have.
\<close>

definition updateComment ::
  "string \<Rightarrow> int \<Rightarrow> string \<Rightarrow> CollaborationState \<Rightarrow> ReducerError + CollaborationState" where
  "updateComment documentId commentId content state =
     (case readKey (comments state) documentId of
        Missing \<Rightarrow> Inr state
      | Inherited \<Rightarrow> Inl TypeError
      | Own cs \<Rightarrow>
          (case find (\<lambda>c. c_id c = commentId) cs of
             None \<Rightarrow> Inr state
           | Some comment \<Rightarrow>
               Inr (state\<lparr>comments := (comments state)(documentId \<mapsto>
                 modifyFirst (\<lambda>c. c_id c = commentId) (setContent content) cs)\<rparr>)))"

definition removeComment ::
  "string \<Rightarrow> int \<Rightarrow> CollaborationState \<Rightarrow> ReducerError + CollaborationState" where
  "removeComment documentId commentId state =
     (case readKey (comments state) documentId of
        Missing \<Rightarrow> Inr state
      | Inherited \<Rightarrow> Inl TypeError
      | Own cs \<Rightarrow>
          (case assignKey (comments state) documentId (filter (\<lambda>c. c_id c \<noteq> commentId) cs) of
             Inl e \<Rightarrow> Inl e
           | Inr m \<Rightarrow> Inr (state\<lparr>comments := m\<rparr>)))"

definition addReply ::
  "string \<Rightarrow> int \<Rightarrow> Comment \<Rightarrow> CollaborationState \<Rightarrow> ReducerError + CollaborationState" where
  "addReply documentId commentId reply state =
     (case readKey (comments state) documentId of
        Missing \<Rightarrow> Inr state
      | Inherited \<Rightarrow> Inl TypeError
      | Own cs \<Rightarrow>
          (case find (\<lambda>c. c_id c = commentId) cs of
             None \<Rightarrow> Inr state
           | Some comment \<Rightarrow>
               Inr (state\<lparr>comments := (comments state)(documentId \<mapsto>
                 modifyFirst (\<lambda>c. c_id c = commentId) (pushReply reply) cs)\<rparr>)))"

definition setDocumentLock :: "DocumentLock \<Rightarrow> CollaborationState \<Rightarrow> CollaborationState" where
  "setDocumentLock payload state = state\<lparr>documentLock := payload\<rparr>"

definition updateParticipants :: "string list \<Rightarrow> CollaborationState \<Rightarrow> CollaborationState" where
  "updateParticipants payload state = state\<lparr>participants := payload\<rparr>"

definition setConnectionStatus :: "bool \<Rightarrow> CollaborationState \<Rightarrow> CollaborationState" where
  "setConnectionStatus payload state = state\<lparr>isConnected := payload\<rparr>"

definition setError :: "string option \<Rightarrow> CollaborationState \<Rightarrow> CollaborationState" where
  "setError payload state = state\<lparr>error := payload\<rparr>"

definition clearCollaborationState :: "CollaborationState \<Rightarrow> CollaborationState" where
  "clearCollaborationState state =
     state\<lparr>activeDocumentId := None,
           cursors := Map.empty,
           comments := Map.empty,
           documentLock := \<lparr>isLocked = False, lockedBy = None, lockedAt = None\<rparr>,
           participants := [],
           isConnected := False,
           error := None\<rparr>"

text \<open>The actions of the slice, and the reducer that dispatches on them.\<close>

datatype Action =
    SetActiveDocument string
  | UpdateCursor string string Position
  | RemoveCursor string
  | AddComment string Comment
  | UpdateComment string int string
  | RemoveComment string int
  | AddReply string int Comment
  | SetDocumentLock DocumentLock
  | UpdateParticipants "string list"
  | SetConnectionStatus bool
  | SetError "string option"
  | ClearCollaborationState

fun reducer :: "CollaborationState \<Rightarrow> Action \<Rightarrow> ReducerError + CollaborationState" where
  "reducer state (SetActiveDocument d) = setActiveDocument d state"
| "reducer state (UpdateCursor now u p) = updateCursor now u p state"
| "reducer state (RemoveCursor u) = Inr (removeCursor u state)"
| "reducer state (AddComment d c) = addComment d c state"
| "reducer state (UpdateComment d i t) = updateComment d i t state"
| "reducer state (RemoveComment d i) = removeComment d i state"
| "reducer state (AddReply d i r) = addReply d i r state"
| "reducer state (SetDocumentLock l) = Inr (setDocumentLock l state)"
| "reducer state (UpdateParticipants ps) = Inr (updateParticipants ps state)"
| "reducer state (SetConnectionStatus b) = Inr (setConnectionStatus b state)"
| "reducer state (SetError e) = Inr (setError e state)"
| "reducer state ClearCollaborationState = Inr (clearCollaborationState state)"

text \<open>
  The store replaces its state by what the reducer returns; when the reducer throws, the
  error goes to the caller of \<^verbatim>\<open>dispatch\<close> and the store keeps the state it had.
\<close>

definition dispatch :: "CollaborationState \<Rightarrow> Action \<Rightarrow> CollaborationState" where
  "dispatch state action = (case reducer state action of Inl e \<Rightarrow> state | Inr state' \<Rightarrow> state')"



section \<open>The collaborative editor\<close>

text \<open>
  The editor keeps its own picture of the session in component state: the comments, the
  cursors, whether the document is locked and by whom. Every message of the server is
  parsed and, once parsed, dispatched on its \<^verbatim>\<open>type\<close>; the four kinds below change the state
  and every other kind leaves it alone. The editor's comments have the shape of the
  slice's (with \<^verbatim>\<open>user_id\<close> and \<^verbatim>\<open>created_at\<close> for the two renamed fields).
  The \<^verbatim>\<open>user_id\<close> of a lock message is stored as it comes, so it is optional here:
  absent or null when the message does not carry one.
\<close>

record EditorState =
  ed_comments :: "Comment list"
  ed_cursors :: "string \<rightharpoonup> Position"
  ed_isLocked :: bool
  ed_lockOwner :: "string option"

datatype ServerMessage =
    cursor_update string Position
  | new_comment Comment
  | document_locked "string option"
  | document_unlocked
  | other_message string

definition editorInitial :: "Comment list \<Rightarrow> (string \<rightharpoonup> Position) \<Rightarrow> EditorState" where
  "editorInitial initialComments initialCursors =
     \<lparr>ed_comments = initialComments, ed_cursors = initialCursors,
      ed_isLocked = False, ed_lockOwner = None\<rparr>"

fun handleMessage :: "EditorState \<Rightarrow> ServerMessage \<Rightarrow> EditorState" where
  "handleMessage st (cursor_update user_id position) =
     st\<lparr>ed_cursors := (ed_cursors st)(user_id \<mapsto> position)\<rparr>"
| "handleMessage st (new_comment comment) = st\<lparr>ed_comments := ed_comments st @ [comment]\<rparr>"
| "handleMessage st (document_locked user_id) = st\<lparr>ed_isLocked := True, ed_lockOwner := user_id\<rparr>"
| "handleMessage st document_unlocked = st\<lparr>ed_isLocked := False, ed_lockOwner := None\<rparr>"
| "handleMessage st (other_message t) = st"

text \<open>
  What a message says about the lock, and what the last message about the lock in a
  sequence of messages says: the only two cases of the handler that write
  \<^verbatim>\<open>isLocked\<close> and \<^verbatim>\<open>lockOwner\<close> write both, so the last of them decides both.
\<close>

fun lockNews :: "ServerMessage \<Rightarrow> (bool \<times> string option) option" where
  "lockNews (document_locked user_id) = Some (True, user_id)"
| "lockNews document_unlocked = Some (False, None)"
| "lockNews m = None"

fun lastLockNews :: "ServerMessage list \<Rightarrow> (bool \<times> string option) option" where
  "lastLockNews [] = None"
| "lastLockNews (m # ms) =
     (case lastLockNews ms of Some v \<Rightarrow> Some v | None \<Rightarrow> lockNews m)"

text \<open>
  What the editor sends. \<^verbatim>\<open>acquireLock\<close> and \<^verbatim>\<open>releaseLock\<close> only send a
  request: the editor's own lock state changes when the server's answer arrives.
\<close>

datatype ClientMessage =
    cursor_update_request Position
  | comment_request string Position
  | acquire_lock
  | release_lock

definition acquireLock :: "EditorState \<Rightarrow> EditorState \<times> ClientMessage list" where
  "acquireLock st = (st, [acquire_lock])"

definition releaseLock :: "EditorState \<Rightarrow> EditorState \<times> ClientMessage list" where
  "releaseLock st = (st, [release_lock])"

text \<open>
  The lock controls of the toolbar: the button that asks for the lock when the document
  is not locked, the button that releases it when the lock owner is this client's token,
  and otherwise the name of the owner.
\<close>

datatype Control = LockForEditing | ReleaseLock | LockedBy "string option"

definition documentControls :: "string \<Rightarrow> EditorState \<Rightarrow> Control" where
  "documentControls token st =
     (if \<not> ed_isLocked st then LockForEditing
      else if ed_lockOwner st = Some token then ReleaseLock
      else LockedBy (ed_lockOwner st))"

text \<open>
  A participant sees the lock as held by itself when its view of the lock says locked and
  names it as the holder: the release button of the editor, and the same reading of the
  slice's \<open>documentLock\<close>.
\<close>

definition heldBySelf :: "string \<Rightarrow> EditorState \<Rightarrow> bool" where
  "heldBySelf token st = (documentControls token st = ReleaseLock)"

definition lockHeldBy :: "string \<Rightarrow> DocumentLock \<Rightarrow> bool" where
  "lockHeldBy userId l = (isLocked l \<and> lockedBy l = Some userId)"

section \<open>The document viewer\<close>

text \<open>
  The viewer's comments are those of the shared types: a string id, the author as a user,
  an optional position and an optional \<^verbatim>\<open>resolved\<close> flag. A template literal
  renders the integer \<^verbatim>\<open>Date.now()\<close> (milliseconds since the epoch, taken here as a
  natural number) in decimal, without leading zeros.
\<close>

datatype Status = online | offline | away

record User =
  u_id :: string
  u_name :: string
  u_avatar :: "string option"
  u_role :: string
  u_status :: Status

record ViewerPosition =
  vp_x :: real
  vp_y :: real
  vp_page :: "int option"

record ViewerComment =
  vc_id :: string
  vc_content :: string
  vc_user :: User
  vc_timestamp :: string
  vc_position :: "ViewerPosition option"
  vc_resolved :: "bool option"

definition digitChar :: "nat \<Rightarrow> char" where
  "digitChar d = char_of (48 + d)"

fun decimal :: "nat \<Rightarrow> string" where
  "decimal n = (if n < 10 then [digitChar n] else decimal (n div 10) @ [digitChar (n mod 10)])"

declare decimal.simps [simp del]

definition currentUser :: User where
  "currentUser =
     \<lparr>u_id = ''current-user'', u_name = ''You'', u_avatar = None, u_role = ''editor'',
      u_status = online\<rparr>"

text \<open>
  \<open>handleAddComment\<close> builds the comment and hands it to \<^verbatim>\<open>addComment\<close>; the result
  is the comment handed on, or nothing when no document is loaded. The two clock readings
  are the arguments \<open>nowMs\<close> and \<open>nowIso\<close>.
\<close>

definition handleAddComment ::
  "nat \<Rightarrow> string \<Rightarrow> 'doc option \<Rightarrow> int \<Rightarrow> string \<Rightarrow> ViewerComment option" where
  "handleAddComment nowMs nowIso document currentPage content =
     (case document of
        None \<Rightarrow> None
      | Some d \<Rightarrow>
          Some \<lparr>vc_id = ''comment-'' @ decimal nowMs,
                vc_content = content,
                vc_user = currentUser,
                vc_timestamp = nowIso,
                vc_position = Some \<lparr>vp_x = 0, vp_y = 0, vp_page = Some currentPage\<rparr>,
                vc_resolved = None\<rparr>)"

text \<open>The comments list offers the resolve button for a comment that is not resolved.\<close>

definition showsResolveButton :: "ViewerComment \<Rightarrow> bool" where
  "showsResolveButton comment = (vc_resolved comment \<noteq> Some True)"

section \<open>The collaboration service\<close>

text \<open>
  The client of the collaboration server. Its state is the socket, the document id and
  the user; a socket is known here by the query it was opened with. A send operation
  emits at most one event on the socket and changes no field, so it is modelled by the
  list of events it emits; the payload carries the service's document id as the field
  holds it. \<^verbatim>\<open>!this.documentId\<close> holds for \<^verbatim>\<open>null\<close> and for the empty string.
\<close>

datatype AnnotationType = highlight | underline | strikethrough | comment_annotation

record AnnotationPosition =
  ap_start :: real
  ap_end :: real
  ap_page :: "int option"

record Annotation =
  a_id :: string
  a_type :: AnnotationType
  a_content :: "string option"
  a_color :: "string option"
  a_user :: User
  a_timestamp :: string
  a_position :: AnnotationPosition

datatype MessageType = text_message | file_message | system_message

record Message =
  m_id :: string
  m_content :: string
  m_type :: MessageType
  m_sender :: User
  m_timestamp :: string

record Socket =
  query_documentId :: string
  query_userId :: string

record CollaborationService =
  socket :: "Socket option"
  documentId :: "string option"
  user :: "User option"

datatype Emitted =
    annotation_add "string option" Annotation
  | annotation_remove "string option" string
  | comment_add "string option" ViewerComment
  | comment_resolve "string option" string
  | message_send "string option" Message
  | cursor_move "string option" real real
  | users_get "string option"
  | document_history "string option"

datatype 'a Promise = Resolved 'a | AwaitingAck

record History =
  h_annotations :: "Annotation list"
  h_comments :: "ViewerComment list"
  h_messages :: "Message list"

definition serviceInitial :: CollaborationService where
  "serviceInitial = \<lparr>socket = None, documentId = None, user = None\<rparr>"

definition connect :: "string \<Rightarrow> User \<Rightarrow> CollaborationService \<Rightarrow> CollaborationService" where
  "connect d u svc =
     svc\<lparr>documentId := Some d, user := Some u,
         socket := Some \<lparr>query_documentId = d, query_userId = u_id u\<rparr>\<rparr>"

definition disconnect :: "CollaborationService \<Rightarrow> CollaborationService" where
  "disconnect svc = svc\<lparr>socket := None, documentId := None, user := None\<rparr>"

definition noDocumentId :: "CollaborationService \<Rightarrow> bool" where
  "noDocumentId svc = (case documentId svc of None \<Rightarrow> True | Some d \<Rightarrow> d = [])"

definition addAnnotation :: "CollaborationService \<Rightarrow> Annotation \<Rightarrow> Emitted list" where
  "addAnnotation svc annotation =
     (if socket svc = None \<or> noDocumentId svc then []
      else [annotation_add (documentId svc) annotation])"

definition removeAnnotation :: "CollaborationService \<Rightarrow> string \<Rightarrow> Emitted list" where
  "removeAnnotation svc annotationId =
     (if socket svc = None \<or> noDocumentId svc then []
      else [annotation_remove (documentId svc) annotationId])"

definition serviceAddComment :: "CollaborationService \<Rightarrow> ViewerComment \<Rightarrow> Emitted list" where
  "serviceAddComment svc comment =
     (if socket svc = None \<or> noDocumentId svc then []
      else [comment_add (documentId svc) comment])"

definition resolveComment :: "CollaborationService \<Rightarrow> string \<Rightarrow> Emitted list" where
  "resolveComment svc commentId =
     (if socket svc = None \<or> noDocumentId svc then []
      else [comment_resolve (documentId svc) commentId])"

definition sendMessage :: "nat \<Rightarrow> string \<Rightarrow> CollaborationService \<Rightarrow> string \<Rightarrow> Emitted list" where
  "sendMessage nowMs nowIso svc content =
     (if socket svc = None \<or> noDocumentId svc then []
      else (case user svc of
              None \<Rightarrow> []
            | Some sender \<Rightarrow>
                [message_send (documentId svc)
                   \<lparr>m_id = ''message-'' @ decimal nowMs, m_content = content,
                    m_type = text_message, m_sender = sender, m_timestamp = nowIso\<rparr>]))"

definition updateCursorPosition :: "CollaborationService \<Rightarrow> real \<times> real \<Rightarrow> Emitted list" where
  "updateCursorPosition svc position =
     (if socket svc = None \<or> noDocumentId svc then []
      else [cursor_move (documentId svc) (fst position) (snd position)])"

definition getActiveUsers :: "CollaborationService \<Rightarrow> User list Promise \<times> Emitted list" where
  "getActiveUsers svc =
     (if socket svc = None \<or> noDocumentId svc then (Resolved [], [])
      else (AwaitingAck, [users_get (documentId svc)]))"

definition getDocumentHistory :: "CollaborationService \<Rightarrow> History Promise \<times> Emitted list" where
  "getDocumentHistory svc =
     (if socket svc = None \<or> noDocumentId svc
      then (Resolved \<lparr>h_annotations = [], h_comments = [], h_messages = []\<rparr>, [])
      else (AwaitingAck, [document_history (documentId svc)]))"

section \<open>The session on the server\<close>

text \<open>
  The server that owns a session, decides who gets the edit lock, removes a participant
  whose connection closes and marks comments resolved is not among the sources: the
  clients above only send it requests and show what it broadcasts. Its operations are
  therefore modelled from the specification, each under a note that says so, and nothing
  in this section is derived from code.
\<close>

text \<open>
  Modelled from the spec: the error taxonomy of the session, whose code is missing: the
  failures that are reported to the connection that made the request.
\<close>

datatype SessionError =
    DuplicateParticipant
  | UnknownParticipant
  | LockHeld string
  | NotLockHolder
  | CommentNotFound

text \<open>
  Modelled from the spec: the lock state of the Edit Lock Manager, whose code is missing.
  The state machine is Unlocked, Locked(holder), Unlocked; a held lock records its holder
  and the time it was acquired at.
\<close>

datatype EditLock = Unlocked | Locked string string

text \<open>
  Modelled from the spec: the holder of the EditLock (a participant id, or empty when the
  lock is unheld).
\<close>

fun holder :: "EditLock \<Rightarrow> string option" where
  "holder Unlocked = None"
| "holder (Locked h t) = Some h"

text \<open>
  Modelled from the spec: \<open>acquire\<close> of the Edit Lock Manager, whose code is missing.
  From Unlocked it moves to Locked(participantId) and succeeds; from Locked(other) it
  fails with LockHeld, reporting the current holder; from Locked(self) it succeeds and
  does nothing.
\<close>

fun acquire :: "string \<Rightarrow> string \<Rightarrow> EditLock \<Rightarrow> SessionError + EditLock" where
  "acquire participantId now Unlocked = Inr (Locked participantId now)"
| "acquire participantId now (Locked h t) =
     (if h = participantId then Inr (Locked h t) else Inl (LockHeld h))"

text \<open>
  Modelled from the spec: \<open>release\<close> of the Edit Lock Manager, whose code is missing.
  From Locked(self) it moves to Unlocked and succeeds; from Locked(other) it fails with
  NotLockHolder; from Unlocked it succeeds and does nothing.
\<close>

fun release :: "string \<Rightarrow> EditLock \<Rightarrow> SessionError + EditLock" where
  "release participantId Unlocked = Inr Unlocked"
| "release participantId (Locked h t) =
     (if h = participantId then Inr Unlocked else Inl NotLockHolder)"

text \<open>
  Modelled from the spec: \<open>join\<close> of the Presence Tracker, whose code is missing, on the
  session's ordered set of participant ids. Joining fails with DuplicateParticipant when
  the user id is already active in the session and otherwise adds the participant after
  those who joined before.
\<close>

definition join :: "string \<Rightarrow> string list \<Rightarrow> SessionError + string list" where
  "join participantId ps =
     (if participantId \<in> set ps then Inl DuplicateParticipant else Inr (ps @ [participantId]))"

text \<open>
  Modelled from the spec: \<open>leave\<close> of the Presence Tracker, whose code is missing. Leaving
  removes the participant; leaving twice is not an error, the second call does nothing.
\<close>

definition leave :: "string \<Rightarrow> string list \<Rightarrow> string list" where
  "leave participantId ps = filter (\<lambda>p. p \<noteq> participantId) ps"

text \<open>
  Modelled from the spec: the part of a Session that the Presence Tracker, the Edit Lock
  Manager and the Connection Lifecycle Manager read and write, namely its participants
  and its lock state. The comment list belongs to the Comment Thread Store, whose
  operations touch neither of the two.
\<close>

record Session =
  s_participants :: "string list"
  s_lock :: EditLock

text \<open>
  Modelled from the spec: the new, empty session that the Session Registry creates on the
  first connection to a document: nobody is in it and the lock is unheld.
\<close>

definition emptySession :: Session where
  "emptySession = \<lparr>s_participants = [], s_lock = Unlocked\<rparr>"

text \<open>
  Modelled from the spec: what reaches the Connection Lifecycle Manager, whose code is
  missing: a connection opened for a user, a lock request arriving on the connection of
  a user (an acquire carries the time of its arrival), and a connection closed.
\<close>

datatype SessionEvent =
    connect_event string
  | lock_acquire_event string string
  | lock_release_event string
  | disconnect_event string

text \<open>
  Modelled from the spec: \<open>onConnect\<close> of the Connection Lifecycle Manager, whose code is
  missing. Connecting joins the session through the Presence Tracker.
\<close>

definition onConnect :: "string \<Rightarrow> Session \<Rightarrow> SessionError + Session" where
  "onConnect userId s =
     (case join userId (s_participants s) of
        Inl e \<Rightarrow> Inl e
      | Inr ps \<Rightarrow> Inr (s\<lparr>s_participants := ps\<rparr>))"

text \<open>
  Modelled from the spec: \<open>onDisconnect\<close> of the Connection Lifecycle Manager, whose code
  is missing. Disconnecting leaves through the Presence Tracker and, in the same step,
  forces the lock to Unlocked when the participant who leaves holds it.
\<close>

definition onDisconnect :: "string \<Rightarrow> Session \<Rightarrow> Session" where
  "onDisconnect userId s =
     s\<lparr>s_participants := leave userId (s_participants s),
       s_lock := (if holder (s_lock s) = Some userId then Unlocked else s_lock s)\<rparr>"

text \<open>
  Modelled from the spec: \<open>onMessage\<close> of the Connection Lifecycle Manager, whose code is
  missing, together with its two neighbours as cases of one dispatch. A lock request is
  handed to the Edit Lock Manager; one that arrives for a user who is not in the session
  is the stale message after a departure and is dropped with UnknownParticipant.
\<close>

fun onMessage :: "SessionEvent \<Rightarrow> Session \<Rightarrow> SessionError + Session" where
  "onMessage (lock_acquire_event userId now) s =
     (if userId \<notin> set (s_participants s) then Inl UnknownParticipant
      else (case acquire userId now (s_lock s) of
              Inl e \<Rightarrow> Inl e
            | Inr l \<Rightarrow> Inr (s\<lparr>s_lock := l\<rparr>)))"
| "onMessage (lock_release_event userId) s =
     (if userId \<notin> set (s_participants s) then Inl UnknownParticipant
      else (case release userId (s_lock s) of
              Inl e \<Rightarrow> Inl e
            | Inr l \<Rightarrow> Inr (s\<lparr>s_lock := l\<rparr>)))"
| "onMessage (connect_event userId) s = onConnect userId s"
| "onMessage (disconnect_event userId) s = Inr (onDisconnect userId s)"

text \<open>
  Modelled from the spec: the events the Connection Lifecycle Manager publishes for a
  request that succeeded, in the vocabulary of the messages the editor understands; a
  failure is answered to its originator only and nothing is broadcast. A departure
  publishes the release of the lock when the participant who left held it.
\<close>

fun published :: "SessionEvent \<Rightarrow> Session \<Rightarrow> ServerMessage list" where
  "published (connect_event userId) s = [other_message ''participant_joined'']"
| "published (lock_acquire_event userId now) s = [document_locked (Some userId)]"
| "published (lock_release_event userId) s = [document_unlocked]"
| "published (disconnect_event userId) s =
     other_message ''participant_left'' #
       (if holder (s_lock s) = Some userId then [document_unlocked] else [])"

text \<open>
  Modelled from the spec: one step of the serialization point of a session, whose code is
  missing. An event is applied as a whole; a failed operation changes nothing and
  publishes nothing. The state is the session with the messages broadcast so far.
\<close>

definition sessionStep ::
  "Session \<times> ServerMessage list \<Rightarrow> SessionEvent \<Rightarrow> Session \<times> ServerMessage list" where
  "sessionStep sl ev =
     (case onMessage ev (fst sl) of
        Inl e \<Rightarrow> sl
      | Inr s' \<Rightarrow> (s', snd sl @ published ev (fst sl)))"

text \<open>
  Modelled from the spec: the life of a session, whose code is missing: from the empty
  session, the events are applied one at a time in the order they are accepted.
\<close>

definition runSession :: "SessionEvent list \<Rightarrow> Session \<times> ServerMessage list" where
  "runSession evs = foldl sessionStep (emptySession, []) evs"

text \<open>
  Modelled from the spec: a Comment of the Comment Thread Store, whose code is missing. A
  comment has an integer id, an author, a text, a position, a creation time, a resolved
  flag and its replies, which have the same shape.
\<close>

datatype ThreadComment =
  ThreadComment (tc_id: nat) (tc_author: string) (tc_content: string) (tc_position: Position)
    (tc_createdAt: string) (tc_resolved: bool) (tc_replies: "ThreadComment list")

text \<open>
  Modelled from the spec: the effect of \<open>resolve\<close> on the comment it finds: it sets
  resolved to true.
\<close>

definition markResolved :: "ThreadComment \<Rightarrow> ThreadComment" where
  "markResolved c =
     ThreadComment (tc_id c) (tc_author c) (tc_content c) (tc_position c) (tc_createdAt c)
       True (tc_replies c)"

text \<open>
  Modelled from the spec: \<open>resolve\<close> of the Comment Thread Store, whose code is missing.
  It fails with CommentNotFound when no comment of the session's list has the id, as
  \<open>addReply\<close> does; otherwise it sets the resolved flag of that comment, and resolving a
  comment that is already resolved succeeds.
\<close>

definition resolve :: "nat \<Rightarrow> ThreadComment list \<Rightarrow> SessionError + ThreadComment list" where
  "resolve commentId cs =
     (case find (\<lambda>c. tc_id c = commentId) cs of
        None \<Rightarrow> Inl CommentNotFound
      | Some c \<Rightarrow> Inr (modifyFirst (\<lambda>c. tc_id c = commentId) markResolved cs))"

subsection \<open>Invariants of the session\<close>

text \<open>
  The picture of the lock that a client should have of a lock state of the session:
  locked or not, and the holder.
\<close>

definition lockViewOf :: "EditLock \<Rightarrow> bool \<times> string option" where
  "lockViewOf l = (holder l \<noteq> None, holder l)"

text \<open>Whoever holds the lock of the session is one of its participants.\<close>

definition lockHolderPresent :: "Session \<Rightarrow> bool" where
  "lockHolderPresent s =
     (case holder (s_lock s) of None \<Rightarrow> True | Some h \<Rightarrow> h \<in> set (s_participants s))"

text \<open>
  The messages broadcast so far tell the state of the lock: the last message about the
  lock says what the lock state is, and when there was none the lock is still unheld.
\<close>

definition broadcastAgrees :: "Session \<times> ServerMessage list \<Rightarrow> bool" where
  "broadcastAgrees sl =
     (case lastLockNews (snd sl) of
        None \<Rightarrow> s_lock (fst sl) = Unlocked
      | Some v \<Rightarrow> v = lockViewOf (s_lock (fst sl)))"

section \<open>Example data\<close>

text \<open>
  A small session used where a statement is run on concrete input: alice comments on
  page 2 of document \<open>doc1\<close>, and bob replies. \<open>oneComment\<close> is the state after alice's
  comment.
\<close>

definition aliceComment :: Comment where
  "aliceComment =
     Comment 1 ''alice'' ''review section 2'' \<lparr>pos_x = 0, pos_y = 0, pos_page = 2\<rparr> ''t1'' []"

definition bobReply :: Comment where
  "bobReply = Comment 2 ''bob'' ''agreed'' \<lparr>pos_x = 0, pos_y = 0, pos_page = 2\<rparr> ''t2'' []"

definition carolComment :: Comment where
  "carolComment =
     Comment 3 ''carol'' ''see also section 4'' \<lparr>pos_x = 10, pos_y = 20, pos_page = 4\<rparr> ''t3'' []"

definition oneComment :: CollaborationState where
  "oneComment = initialState\<lparr>comments := [''doc1'' \<mapsto> [aliceComment]]\<rparr>"

text \<open>
  On the server: A and B join, A acquires the lock, and B asks for it in vain. The
  thread is the one of the slice's example, with a third comment that is already
  resolved.
\<close>

definition twoParticipants :: Session where
  "twoParticipants = \<lparr>s_participants = [''A'', ''B''], s_lock = Unlocked\<rparr>"

definition lockedByA :: Session where
  "lockedByA = \<lparr>s_participants = [''A'', ''B''], s_lock = Locked ''A'' ''t1''\<rparr>"

definition exampleEvents :: "SessionEvent list" where
  "exampleEvents =
     [connect_event ''A'', connect_event ''B'', lock_acquire_event ''A'' ''t1'',
      lock_acquire_event ''B'' ''t2'']"

definition exampleBroadcast :: "ServerMessage list" where
  "exampleBroadcast =
     [other_message ''participant_joined'', other_message ''participant_joined'',
      document_locked (Some ''A'')]"

definition exampleThread :: "ThreadComment list" where
  "exampleThread =
     [ThreadComment 1 ''alice'' ''review section 2'' \<lparr>pos_x = 0, pos_y = 0, pos_page = 2\<rparr> ''t1''
        False
        [ThreadComment 2 ''bob'' ''agreed'' \<lparr>pos_x = 0, pos_y = 0, pos_page = 2\<rparr> ''t2'' False []],
      ThreadComment 3 ''carol'' ''see also section 4'' \<lparr>pos_x = 10, pos_y = 20, pos_page = 4\<rparr>
        ''t3'' True []]"

definition exampleComment :: ViewerComment where
  "exampleComment =
     \<lparr>vc_id = ''comment-1700000000000'', vc_content = ''first'', vc_user = currentUser,
      vc_timestamp = ''2023-11-14T22:13:20.000Z'',
      vc_position = Some \<lparr>vp_x = 0, vp_y = 0, vp_page = Some 2\<rparr>, vc_resolved = None\<rparr>"

definition exampleAnnotation :: Annotation where
  "exampleAnnotation =
     \<lparr>a_id = ''annotation-1700000000000'', a_type = highlight, a_content = Some ''clause 4'',
      a_color = Some ''#ffeb3b'', a_user = currentUser, a_timestamp = ''2023-11-14T22:13:20.000Z'',
      a_position = \<lparr>ap_start = 3, ap_end = 11, ap_page = Some 2\<rparr>\<rparr>"

section \<open>Properties of the slice\<close>

subsection \<open>Finding and rewriting the first match; reading keys\<close>

lemma modifyFirst_absent: "find P cs = None \<Longrightarrow> modifyFirst P f cs = cs"
  by (induction cs) (auto split: if_splits)

lemma firstIndex_found:
  "find P cs = Some c \<Longrightarrow> firstIndex P cs < length cs \<and> cs ! firstIndex P cs = c"
  by (induction cs) (auto simp: firstIndex_def split: if_splits)

lemma modifyFirst_found:
  "find P cs = Some c \<Longrightarrow> modifyFirst P f cs = cs[firstIndex P cs := f c]"
  by (induction cs) (auto simp: firstIndex_def split: if_splits)

lemma find_update_first:
  "find P cs = Some c \<Longrightarrow> P c' \<Longrightarrow>
   find P (cs[firstIndex P cs := c']) = Some c' \<and>
   firstIndex P (cs[firstIndex P cs := c']) = firstIndex P cs"
  by (induction cs) (auto simp: firstIndex_def split: if_splits)

lemma readKey_own: "m k = Some v \<Longrightarrow> readKey m k = Own v"
  by (simp add: readKey_def)

lemma readKey_missing: "m k = None \<Longrightarrow> \<not> inheritedKey k \<Longrightarrow> readKey m k = Missing"
  by (simp add: readKey_def)

lemma readKey_inherited: "m k = None \<Longrightarrow> inheritedKey k \<Longrightarrow> readKey m k = Inherited"
  by (simp add: readKey_def)

lemma inheritedKey_proto: "inheritedKey ''__proto__''"
  by (simp add: inheritedKey_def prototypeKeys_def)

lemma inheritedKey_constructor: "inheritedKey ''constructor''"
  by (simp add: inheritedKey_def prototypeKeys_def)

lemma plain_doc1: "\<not> inheritedKey ''doc1''"
  by (simp add: inheritedKey_def prototypeKeys_def)

lemma plain_not_proto: "\<not> inheritedKey k \<Longrightarrow> k \<noteq> ''__proto__''"
  using inheritedKey_proto by auto

lemma addComment_plain:
  "\<not> inheritedKey d \<Longrightarrow>
   addComment d c s = Inr (s\<lparr>comments := (comments s)(d \<mapsto> storedComments s d @ [c])\<rparr>)"
  by (cases "comments s d")
     (auto simp: addComment_def readKey_def assignKey_def storedComments_def inheritedKey_proto)

lemma addComment_own:
  "comments s d = Some cs \<Longrightarrow>
   addComment d c s = Inr (s\<lparr>comments := (comments s)(d \<mapsto> cs @ [c])\<rparr>)"
  by (simp add: addComment_def readKey_def)

lemma addComment_inherited:
  "comments s d = None \<Longrightarrow> inheritedKey d \<Longrightarrow> addComment d c s = Inl TypeError"
  by (simp add: addComment_def readKey_def)

lemma addReply_missing:
  "comments s d = None \<Longrightarrow> \<not> inheritedKey d \<Longrightarrow> addReply d cid r s = Inr s"
  by (simp add: addReply_def readKey_def)

lemma addReply_inherited:
  "comments s d = None \<Longrightarrow> inheritedKey d \<Longrightarrow> addReply d cid r s = Inl TypeError"
  by (simp add: addReply_def readKey_def)

lemma addReply_absent:
  "comments s d = Some cs \<Longrightarrow> find (\<lambda>c. c_id c = cid) cs = None \<Longrightarrow> addReply d cid r s = Inr s"
  by (simp add: addReply_def readKey_def)

lemma addReply_found:
  "comments s d = Some cs \<Longrightarrow> find (\<lambda>c. c_id c = cid) cs = Some c \<Longrightarrow>
   addReply d cid r s =
     Inr (s\<lparr>comments := (comments s)(d \<mapsto> cs[firstIndex (\<lambda>c. c_id c = cid) cs := pushReply r c])\<rparr>)"
  by (simp add: addReply_def readKey_def modifyFirst_found)

lemma updateCursor_plain:
  "u \<noteq> ''__proto__'' \<Longrightarrow>
   updateCursor now u p s =
     Inr (s\<lparr>cursors := (cursors s)(u \<mapsto> \<lparr>cur_userId = u, cur_position = p, cur_lastUpdate = now\<rparr>)\<rparr>)"
  by (simp add: updateCursor_def assignKey_def)

lemma updateCursor_proto: "updateCursor now ''__proto__'' p s = Inl DraftError"
  by (simp add: updateCursor_def assignKey_def)

lemma comments_oneComment: "comments oneComment ''doc1'' = Some [aliceComment]"
  by (simp add: oneComment_def)

lemma storedComments_oneComment: "storedComments oneComment ''doc1'' = [aliceComment]"
  by (simp add: storedComments_def comments_oneComment)

lemma addComment_example: "addComment ''doc1'' aliceComment initialState = Inr oneComment"
  by (simp add: addComment_plain plain_doc1 storedComments_def oneComment_def initialState_def)

subsection \<open>Inherited keys\<close>

text \<open>
  What the reducers do under the property names of the prototype: the comment reducers
  throw, the cursor and the active document cannot be stored under \<^verbatim>\<open>__proto__\<close>,
  \<open>setActiveDocument\<close> creates no list under an inherited name, and the store keeps its
  state when the reducer throws. The statements below about comments and cursors are
  therefore about the other keys.
\<close>

lemma inherited_key_throws:
  "addComment ''constructor'' aliceComment initialState = Inl TypeError"
  "addReply ''constructor'' 1 bobReply initialState = Inl TypeError"
  "updateComment ''toString'' 1 ''new text'' initialState = Inl TypeError"
  "removeComment ''valueOf'' 1 initialState = Inl TypeError"
  "updateCursor ''t1'' ''__proto__'' \<lparr>pos_x = 3, pos_y = 4, pos_page = 1\<rparr> initialState = Inl DraftError"
  "setActiveDocument ''__proto__'' initialState = Inl DraftError"
  "map_sum id comments (setActiveDocument ''constructor'' initialState) = Inr Map.empty"
  "dispatch initialState (AddComment ''constructor'' aliceComment) = initialState"
  by (simp_all add: addComment_def addReply_def updateComment_def removeComment_def updateCursor_def
      setActiveDocument_def dispatch_def readKey_def assignKey_def inheritedKey_def prototypeKeys_def
      initialState_def)

subsection \<open>Resetting the slice\<close>

text \<open>
  C9. For every collaboration state, \<open>clearCollaborationState\<close> yields exactly the
  initial state: no active document, no cursors, no comments, the lock unheld with no
  holder and no timestamp, no participants, disconnected, no error. The reducer is
  therefore constant, and applying it twice is the same as applying it once.
\<close>

theorem clearCollaborationState_initial:
  "clearCollaborationState s = initialState
   \<and> clearCollaborationState s = clearCollaborationState s'
   \<and> clearCollaborationState (clearCollaborationState s) = clearCollaborationState s
   \<and> activeDocumentId (clearCollaborationState s) = None
   \<and> cursors (clearCollaborationState s) = Map.empty
   \<and> comments (clearCollaborationState s) = Map.empty
   \<and> isLocked (documentLock (clearCollaborationState s)) = False
   \<and> lockedBy (documentLock (clearCollaborationState s)) = None
   \<and> lockedAt (documentLock (clearCollaborationState s)) = None
   \<and> participants (clearCollaborationState s) = []
   \<and> isConnected (clearCollaborationState s) = False
   \<and> error (clearCollaborationState s) = None"
  by (simp add: clearCollaborationState_def initialState_def)

subsection \<open>Replies\<close>

text \<open>
  C2, as the code has it. A reply to a comment id that no comment of the document's list
  has does not fail with CommentNotFound: the reducer returns the state unchanged and
  reports nothing, and it does the same when the document has no list (its id not being a
  property name of the prototype). When a comment of the list has the id, the first
  such comment gets the reply appended at the end of its replies, keeps its other
  fields, and every other comment and every other document stays as it was.
\<close>

theorem addReply_appends_or_ignores:
  "(comments s d = None \<and> \<not> inheritedKey d \<longrightarrow> addReply d cid r s = Inr s)
   \<and> (\<forall>cs. comments s d = Some cs \<and> find (\<lambda>c. c_id c = cid) cs = None \<longrightarrow>
         addReply d cid r s = Inr s)
   \<and> (\<forall>cs c. comments s d = Some cs \<and> find (\<lambda>c. c_id c = cid) cs = Some c \<longrightarrow>
         addReply d cid r s =
           Inr (s\<lparr>comments := (comments s)(d \<mapsto>
              cs[firstIndex (\<lambda>c. c_id c = cid) cs := pushReply r c])\<rparr>)
         \<and> firstIndex (\<lambda>c. c_id c = cid) cs < length cs
         \<and> cs ! firstIndex (\<lambda>c. c_id c = cid) cs = c
         \<and> c_id c = cid
         \<and> c_replies (pushReply r c) = c_replies c @ [r]
         \<and> c_id (pushReply r c) = c_id c
         \<and> c_userId (pushReply r c) = c_userId c
         \<and> c_content (pushReply r c) = c_content c
         \<and> c_position (pushReply r c) = c_position c
         \<and> c_createdAt (pushReply r c) = c_createdAt c)"
proof (intro conjI allI impI)
  fix cs c
  assume a: "comments s d = Some cs \<and> find (\<lambda>c. c_id c = cid) cs = Some c"
  then have f: "find (\<lambda>c. c_id c = cid) cs = Some c" by simp
  show "addReply d cid r s =
           Inr (s\<lparr>comments := (comments s)(d \<mapsto>
              cs[firstIndex (\<lambda>c. c_id c = cid) cs := pushReply r c])\<rparr>)"
    using a by (simp add: addReply_found)
  show "firstIndex (\<lambda>c. c_id c = cid) cs < length cs"
    using firstIndex_found [OF f] by simp
  show "cs ! firstIndex (\<lambda>c. c_id c = cid) cs = c"
    using firstIndex_found [OF f] by simp
  show "c_id c = cid" using f by (auto simp: find_Some_iff)
qed (simp_all add: addReply_missing addReply_absent pushReply_def)

text \<open>
  The statement on the example session: bob's reply to comment 1 lands in alice's
  comment, and a reply to the unknown comment 7, or to a document without comments,
  leaves the state as it was.
\<close>

theorem addReply_appends_or_ignores_witness:
  "comments oneComment ''doc1'' = Some [aliceComment]
   \<and> find (\<lambda>c. c_id c = 1) [aliceComment] = Some aliceComment
   \<and> addReply ''doc1'' 1 bobReply oneComment =
       Inr (oneComment\<lparr>comments := (comments oneComment)(''doc1'' \<mapsto> [pushReply bobReply aliceComment])\<rparr>)
   \<and> c_replies (pushReply bobReply aliceComment) = [bobReply]
   \<and> find (\<lambda>c. c_id c = 7) [aliceComment] = None
   \<and> addReply ''doc1'' 7 bobReply oneComment = Inr oneComment
   \<and> comments oneComment ''doc2'' = None
   \<and> addReply ''doc2'' 1 bobReply oneComment = Inr oneComment"
proof -
  note inst1 = addReply_appends_or_ignores [of oneComment "''doc1''" 1 bobReply]
  note inst7 = addReply_appends_or_ignores [of oneComment "''doc1''" 7 bobReply]
  note inst2 = addReply_appends_or_ignores [of oneComment "''doc2''" 1 bobReply]
  have f1: "find (\<lambda>c. c_id c = 1) [aliceComment] = Some aliceComment"
    by (simp add: aliceComment_def)
  have f7: "find (\<lambda>c. c_id c = 7) [aliceComment] = None"
    by (simp add: aliceComment_def)
  have i0: "firstIndex (\<lambda>c. c_id c = 1) [aliceComment] = 0"
    by (simp add: firstIndex_def aliceComment_def)
  have n2: "comments oneComment ''doc2'' = None" by (simp add: oneComment_def)
  have p2: "\<not> inheritedKey ''doc2''" by (simp add: inheritedKey_def prototypeKeys_def)
  from comments_oneComment f1 have h1:
    "comments oneComment ''doc1'' = Some [aliceComment] \<and>
     find (\<lambda>c. c_id c = 1) [aliceComment] = Some aliceComment" by simp
  from inst1 [THEN conjunct2, THEN conjunct2, rule_format, OF h1, THEN conjunct1, unfolded i0]
  have a: "addReply ''doc1'' 1 bobReply oneComment =
       Inr (oneComment\<lparr>comments := (comments oneComment)(''doc1'' \<mapsto> [pushReply bobReply aliceComment])\<rparr>)"
    by simp
  from comments_oneComment f7 have h7:
    "comments oneComment ''doc1'' = Some [aliceComment] \<and>
     find (\<lambda>c. c_id c = 7) [aliceComment] = None" by simp
  from inst7 [THEN conjunct2, THEN conjunct1, rule_format, OF h7]
  have b: "addReply ''doc1'' 7 bobReply oneComment = Inr oneComment" .
  from n2 p2 have h2: "comments oneComment ''doc2'' = None \<and> \<not> inheritedKey ''doc2''" by simp
  from inst2 [THEN conjunct1, rule_format, OF h2]
  have c: "addReply ''doc2'' 1 bobReply oneComment = Inr oneComment" .
  have e: "c_replies (pushReply bobReply aliceComment) = [bobReply]"
    by (simp add: pushReply_def aliceComment_def)
  from comments_oneComment f1 f7 a b c n2 e show ?thesis by simp
qed

text \<open>
  Against C2 as stated: comment 7 does not exist in the example session, and the reply to
  it does not fail. The reducer returns the state it was given, in which no error is
  recorded.
\<close>

theorem addReply_missing_counterexample:
  "comments oneComment ''doc1'' = Some [aliceComment]
   \<and> find (\<lambda>c. c_id c = 7) [aliceComment] = None
   \<and> addReply ''doc1'' 7 bobReply oneComment = Inr oneComment
   \<and> error oneComment = None"
  by (simp add: comments_oneComment addReply_absent aliceComment_def)
     (simp add: oneComment_def initialState_def)

subsection \<open>Cursors\<close>

text \<open>
  C4, as the code has it. \<open>updateCursor\<close> does not look at the participants and does not
  fail with UnknownParticipant: for a user id other than \<^verbatim>\<open>__proto__\<close>, participant
  or not, the cursor stored under that id becomes the given position with the given
  time, whatever was stored before, so the last write wins. Every other cursor and every
  other field of the state is unchanged. The editor's handler of \<^verbatim>\<open>cursor_update\<close>
  overwrites the position in the same way.
\<close>

theorem updateCursor_overwrites:
  "(u \<noteq> ''__proto__'' \<longrightarrow>
      updateCursor now u p s =
        Inr (s\<lparr>cursors := (cursors s)(u \<mapsto>
               \<lparr>cur_userId = u, cur_position = p, cur_lastUpdate = now\<rparr>)\<rparr>)
    \<and> (\<forall>s'. updateCursor now u p s = Inr s' \<longrightarrow>
          cursors s' u = Some \<lparr>cur_userId = u, cur_position = p, cur_lastUpdate = now\<rparr>
        \<and> (\<forall>v. v \<noteq> u \<longrightarrow> cursors s' v = cursors s v)
        \<and> participants s' = participants s
        \<and> error s' = error s
        \<and> comments s' = comments s
        \<and> documentLock s' = documentLock s
        \<and> activeDocumentId s' = activeDocumentId s
        \<and> isConnected s' = isConnected s
        \<and> updateCursor now' u p' s' = updateCursor now' u p' s))
   \<and> ed_cursors (handleMessage st (cursor_update u p)) = (ed_cursors st)(u \<mapsto> p)
   \<and> handleMessage (handleMessage st (cursor_update u p)) (cursor_update u p') =
       handleMessage st (cursor_update u p')"
  by (auto simp: updateCursor_plain)

text \<open>The statement for \<open>ghost\<close>, who is no participant, written twice.\<close>

theorem updateCursor_overwrites_witness:
  "''ghost'' \<noteq> ''__proto__''
   \<and> updateCursor ''t1'' ''ghost'' \<lparr>pos_x = 3, pos_y = 4, pos_page = 1\<rparr> initialState =
       Inr (initialState\<lparr>cursors := [''ghost'' \<mapsto>
              \<lparr>cur_userId = ''ghost'', cur_position = \<lparr>pos_x = 3, pos_y = 4, pos_page = 1\<rparr>,
               cur_lastUpdate = ''t1''\<rparr>]\<rparr>)
   \<and> updateCursor ''t2'' ''ghost'' \<lparr>pos_x = 5, pos_y = 6, pos_page = 2\<rparr>
        (initialState\<lparr>cursors := [''ghost'' \<mapsto>
              \<lparr>cur_userId = ''ghost'', cur_position = \<lparr>pos_x = 3, pos_y = 4, pos_page = 1\<rparr>,
               cur_lastUpdate = ''t1''\<rparr>]\<rparr>) =
       updateCursor ''t2'' ''ghost'' \<lparr>pos_x = 5, pos_y = 6, pos_page = 2\<rparr> initialState"
proof -
  note inst = updateCursor_overwrites [of "''ghost''" "''t1''" "\<lparr>pos_x = 3, pos_y = 4, pos_page = 1\<rparr>"
      initialState "''t2''" "\<lparr>pos_x = 5, pos_y = 6, pos_page = 2\<rparr>"]
  have ne: "''ghost'' \<noteq> ''__proto__''" by simp
  note plain = inst [THEN conjunct1, rule_format, OF ne]
  from plain [THEN conjunct1]
  have a: "updateCursor ''t1'' ''ghost'' \<lparr>pos_x = 3, pos_y = 4, pos_page = 1\<rparr> initialState =
       Inr (initialState\<lparr>cursors := [''ghost'' \<mapsto>
              \<lparr>cur_userId = ''ghost'', cur_position = \<lparr>pos_x = 3, pos_y = 4, pos_page = 1\<rparr>,
               cur_lastUpdate = ''t1''\<rparr>]\<rparr>)"
    by (simp add: initialState_def)
  from plain [THEN conjunct2, rule_format, OF a]
  have b: "updateCursor ''t2'' ''ghost'' \<lparr>pos_x = 5, pos_y = 6, pos_page = 2\<rparr>
        (initialState\<lparr>cursors := [''ghost'' \<mapsto>
              \<lparr>cur_userId = ''ghost'', cur_position = \<lparr>pos_x = 3, pos_y = 4, pos_page = 1\<rparr>,
               cur_lastUpdate = ''t1''\<rparr>]\<rparr>) =
       updateCursor ''t2'' ''ghost'' \<lparr>pos_x = 5, pos_y = 6, pos_page = 2\<rparr> initialState"
    by simp
  from ne a b show ?thesis by simp
qed

text \<open>
  Against C4 as stated: \<open>ghost\<close> is no participant of the initial state, and its cursor
  update does not fail: the reducer returns the state with the cursor stored and no
  error recorded.
\<close>

theorem updateCursor_unknown_counterexample:
  "''ghost'' \<notin> set (participants initialState)
   \<and> updateCursor ''t1'' ''ghost'' \<lparr>pos_x = 3, pos_y = 4, pos_page = 1\<rparr> initialState =
       Inr (initialState\<lparr>cursors := [''ghost'' \<mapsto>
              \<lparr>cur_userId = ''ghost'', cur_position = \<lparr>pos_x = 3, pos_y = 4, pos_page = 1\<rparr>,
               cur_lastUpdate = ''t1''\<rparr>]\<rparr>)
   \<and> error (initialState\<lparr>cursors := [''ghost'' \<mapsto>
              \<lparr>cur_userId = ''ghost'', cur_position = \<lparr>pos_x = 3, pos_y = 4, pos_page = 1\<rparr>,
               cur_lastUpdate = ''t1''\<rparr>]\<rparr>) = None"
  by (simp add: updateCursor_plain) (simp add: initialState_def)

subsection \<open>Creation order\<close>



lemma dispatch_addComment:
  "\<not> inheritedKey d \<Longrightarrow>
   dispatch s (AddComment d c) = s\<lparr>comments := (comments s)(d \<mapsto> storedComments s d @ [c])\<rparr>"
  by (simp add: dispatch_def addComment_plain)

lemma stored_dispatch_addComment:
  "\<not> inheritedKey d \<Longrightarrow> storedComments (dispatch s (AddComment d c)) d = storedComments s d @ [c]"
  by (simp add: dispatch_addComment) (simp add: storedComments_def)














section \<open>Properties of the document viewer\<close>

lemma digitChar_values:
  "digitChar 0 = CHR ''0''" "digitChar 1 = CHR ''1''" "digitChar 2 = CHR ''2''"
  "digitChar 3 = CHR ''3''" "digitChar 4 = CHR ''4''" "digitChar 5 = CHR ''5''"
  "digitChar 6 = CHR ''6''" "digitChar 7 = CHR ''7''" "digitChar 8 = CHR ''8''"
  "digitChar 9 = CHR ''9''" "digitChar (Suc 0) = CHR ''1''"
  by code_simp+

lemma digitChar_inj: "a < 10 \<Longrightarrow> b < 10 \<Longrightarrow> digitChar a = digitChar b \<Longrightarrow> a = b"
  unfolding digitChar_def
  by (simp add: char_of_eq_iff take_bit_nat_eq_self)

lemma decimal_nonempty: "decimal n \<noteq> []"
  by (subst decimal.simps) simp

lemma decimal_inj: "decimal n = decimal m \<Longrightarrow> n = m"
proof (induction n arbitrary: m rule: decimal.induct)
  case (1 n)
  show ?case
  proof (cases "n < 10")
    case True
    then have dn: "decimal n = [digitChar n]" by (subst decimal.simps) simp
    show ?thesis
    proof (cases "m < 10")
      case True
      then have "decimal m = [digitChar m]" by (subst decimal.simps) simp
      with dn "1.prems" \<open>n < 10\<close> True show ?thesis by (simp add: digitChar_inj)
    next
      case False
      then have "decimal m = decimal (m div 10) @ [digitChar (m mod 10)]"
        by (subst decimal.simps) simp
      with dn "1.prems" decimal_nonempty [of "m div 10"] show ?thesis by simp
    qed
  next
    case False
    then have dn: "decimal n = decimal (n div 10) @ [digitChar (n mod 10)]"
      by (subst decimal.simps) simp
    show ?thesis
    proof (cases "m < 10")
      case True
      then have "decimal m = [digitChar m]" by (subst decimal.simps) simp
      with dn "1.prems" decimal_nonempty [of "n div 10"] show ?thesis by simp
    next
      case mf: False
      then have "decimal m = decimal (m div 10) @ [digitChar (m mod 10)]"
        by (subst decimal.simps) simp
      with dn "1.prems" have e1: "decimal (n div 10) = decimal (m div 10)"
        and e2: "digitChar (n mod 10) = digitChar (m mod 10)" by simp_all
      from "1.IH" [OF False e1] have "n div 10 = m div 10" .
      moreover from e2 have "n mod 10 = m mod 10" by (simp add: digitChar_inj)
      ultimately show ?thesis by (metis div_mult_mod_eq)
    qed
  qed
qed

text \<open>
  C3, as the code has it. The code at hand assigns comment ids in one place, and not from
  a counter: the viewer's \<open>handleAddComment\<close> names a new comment \<open>comment-\<close> followed by
  the clock reading in milliseconds at the time of creation, so two comments it creates
  get the same id exactly when they are created at the same clock reading; nothing is
  handed on when no document is loaded. The slice's \<open>addComment\<close> assigns no id: for a
  document id that is not a property name of the prototype it appends the comment under
  the id its payload carries, without comparing it with the ids already stored.
\<close>

theorem comment_id_from_clock:
  "map_option vc_id (handleAddComment nowMs nowIso (Some doc) page content) =
      Some (''comment-'' @ decimal nowMs)
   \<and> (map_option vc_id (handleAddComment n1 i1 (Some doc1) p1 c1) =
       map_option vc_id (handleAddComment n2 i2 (Some doc2) p2 c2)) = (n1 = n2)
   \<and> handleAddComment nowMs nowIso None page content = None
   \<and> (\<not> inheritedKey d \<longrightarrow>
        addComment d c s = Inr (s\<lparr>comments := (comments s)(d \<mapsto> storedComments s d @ [c])\<rparr>)
      \<and> map c_id (storedComments (s\<lparr>comments := (comments s)(d \<mapsto> storedComments s d @ [c])\<rparr>) d)
          = map c_id (storedComments s d) @ [c_id c])"
  by (auto simp: handleAddComment_def addComment_plain storedComments_def dest: decimal_inj)

text \<open>The statement on the example: a comment of the viewer, and carol's comment stored.\<close>

theorem comment_id_from_clock_witness:
  "\<not> inheritedKey ''doc1''
   \<and> addComment ''doc1'' carolComment oneComment =
       Inr (oneComment\<lparr>comments := (comments oneComment)(''doc1'' \<mapsto> [aliceComment, carolComment])\<rparr>)
   \<and> map c_id (storedComments
        (oneComment\<lparr>comments := (comments oneComment)(''doc1'' \<mapsto> [aliceComment, carolComment])\<rparr>)
        ''doc1'') = [1, 3]
   \<and> map_option vc_id (handleAddComment 1700000000000 ''2023-11-14T22:13:20.000Z'' (Some ()) 2 ''first'')
      = Some ''comment-1700000000000''"
proof -
  note inst = comment_id_from_clock [of 1700000000000 "''2023-11-14T22:13:20.000Z''" "()" 2 "''first''"
      0 "''a''" "()" 1 "''x''" 0 "''b''" "()" 1 "''y''" "''doc1''" carolComment oneComment]
  note store = inst [THEN conjunct2, THEN conjunct2, THEN conjunct2, rule_format, OF plain_doc1]
  from store [THEN conjunct1]
  have a: "addComment ''doc1'' carolComment oneComment =
       Inr (oneComment\<lparr>comments := (comments oneComment)(''doc1'' \<mapsto> [aliceComment, carolComment])\<rparr>)"
    by (simp add: storedComments_oneComment)
  from store [THEN conjunct2]
  have b: "map c_id (storedComments
        (oneComment\<lparr>comments := (comments oneComment)(''doc1'' \<mapsto> [aliceComment, carolComment])\<rparr>)
        ''doc1'') = [1, 3]"
    by (simp add: storedComments_oneComment) (simp add: aliceComment_def carolComment_def)
  from inst [THEN conjunct1]
  have c: "map_option vc_id (handleAddComment 1700000000000 ''2023-11-14T22:13:20.000Z'' (Some ()) 2 ''first'')
      = Some ''comment-1700000000000''"
    by (simp add: decimal.simps digitChar_values)
  from plain_doc1 a b c show ?thesis by simp
qed

text \<open>
  Against C3 as stated: the first comment the viewer creates does not get the id 1, two
  different comments created in the same millisecond get the same id, and the slice
  stores a second comment under an id that is already in use.
\<close>

theorem comment_id_counterexample:
  "map_option vc_id (handleAddComment 1700000000000 ''2023-11-14T22:13:20.000Z'' (Some ()) 2 ''first'')
      = Some ''comment-1700000000000''
   \<and> map_option vc_id (handleAddComment 1700000000000 ''2023-11-14T22:13:20.000Z'' (Some ()) 2 ''second'')
      = Some ''comment-1700000000000''
   \<and> handleAddComment 1700000000000 ''2023-11-14T22:13:20.000Z'' (Some ()) 2 ''first''
      \<noteq> handleAddComment 1700000000000 ''2023-11-14T22:13:20.000Z'' (Some ()) 2 ''second''
   \<and> map c_id (storedComments
        (dispatch oneComment (AddComment ''doc1'' (setContent ''again'' aliceComment))) ''doc1'')
      = [1, 1]"
  by (simp add: handleAddComment_def decimal.simps digitChar_values stored_dispatch_addComment
      plain_doc1 storedComments_oneComment setContent_def aliceComment_def)

section \<open>Properties of the collaboration service\<close>

text \<open>
  C10. With no connection (the socket or the document id is null), every send operation
  returns without emitting anything; none of them has a failing branch. \<open>addComment\<close> and
  \<open>updateCursorPosition\<close> emit nothing, \<open>getActiveUsers\<close> is resolved with the empty
  list, and the same holds for the annotations, \<open>resolveComment\<close>, \<open>sendMessage\<close> and
  \<open>getDocumentHistory\<close>, which is resolved with the empty history.
\<close>

theorem send_without_connection:
  "socket svc = None \<or> documentId svc = None \<Longrightarrow>
     serviceAddComment svc comment = []
   \<and> updateCursorPosition svc position = []
   \<and> getActiveUsers svc = (Resolved [], [])
   \<and> addAnnotation svc annotation = []
   \<and> removeAnnotation svc annotationId = []
   \<and> resolveComment svc commentId = []
   \<and> sendMessage nowMs nowIso svc content = []
   \<and> getDocumentHistory svc = (Resolved \<lparr>h_annotations = [], h_comments = [], h_messages = []\<rparr>, [])"
  by (auto simp: serviceAddComment_def updateCursorPosition_def getActiveUsers_def addAnnotation_def
      removeAnnotation_def resolveComment_def sendMessage_def getDocumentHistory_def noDocumentId_def)

text \<open>
  The statement on a service that was never connected and on one that was disconnected;
  the connected service, for comparison, does emit.
\<close>

theorem send_without_connection_witness:
  "socket serviceInitial = None
   \<and> serviceAddComment serviceInitial exampleComment = []
   \<and> updateCursorPosition serviceInitial (3, 4) = []
   \<and> getActiveUsers serviceInitial = (Resolved [], [])
   \<and> documentId (disconnect (connect ''doc1'' currentUser serviceInitial)) = None
   \<and> serviceAddComment (disconnect (connect ''doc1'' currentUser serviceInitial)) exampleComment = []
   \<and> serviceAddComment (connect ''doc1'' currentUser serviceInitial) exampleComment
       = [comment_add (Some ''doc1'') exampleComment]"
proof -
  have h: "socket serviceInitial = None \<or> documentId serviceInitial = None"
    by (simp add: serviceInitial_def)
  have h': "socket (disconnect (connect ''doc1'' currentUser serviceInitial)) = None
            \<or> documentId (disconnect (connect ''doc1'' currentUser serviceInitial)) = None"
    by (simp add: disconnect_def)
  note a = send_without_connection [OF h, of exampleComment "(3, 4)" exampleAnnotation "''a1''" "''c1''" 0 "''t''" "''hi''"]
  note b = send_without_connection [OF h', of exampleComment "(3, 4)" exampleAnnotation "''a1''" "''c1''" 0 "''t''" "''hi''"]
  have c: "serviceAddComment (connect ''doc1'' currentUser serviceInitial) exampleComment
       = [comment_add (Some ''doc1'') exampleComment]"
    by (simp add: serviceAddComment_def connect_def noDocumentId_def serviceInitial_def)
  have d: "socket serviceInitial = None" by (simp add: serviceInitial_def)
  have e: "documentId (disconnect (connect ''doc1'' currentUser serviceInitial)) = None"
    by (simp add: disconnect_def)
  from a b c d e show ?thesis by simp
qed

section \<open>Properties of the session and of its clients\<close>

subsection \<open>The lock as the clients see it\<close>

lemma lastLockNews_append:
  "lastLockNews (as @ bs) = (case lastLockNews bs of Some v \<Rightarrow> Some v | None \<Rightarrow> lastLockNews as)"
  by (induction as) (simp_all split: option.splits)

lemma lastLockNews_drop:
  "lastLockNews (drop k ms) = None \<or> lastLockNews (drop k ms) = lastLockNews ms"
proof (induction ms arbitrary: k)
  case Nil
  then show ?case by simp
next
  case (Cons m ms)
  show ?case
  proof (cases k)
    case 0
    then show ?thesis by simp
  next
    case (Suc j)
    with Cons.IH [of j] show ?thesis by (auto split: option.splits)
  qed
qed

lemma view_after_messages:
  "(ed_isLocked (foldl handleMessage st ms), ed_lockOwner (foldl handleMessage st ms)) =
     (case lastLockNews ms of None \<Rightarrow> (ed_isLocked st, ed_lockOwner st) | Some v \<Rightarrow> v)"
proof (induction ms arbitrary: st)
  case Nil
  then show ?case by simp
next
  case (Cons m ms)
  show ?case
    using Cons.IH [of "handleMessage st m"]
    by (cases m) (simp_all split: option.splits)
qed

lemma holder_step:
  "lockHolderPresent s \<Longrightarrow> onMessage ev s = Inr s' \<Longrightarrow> lockHolderPresent s'"
proof (cases ev)
  case (connect_event u)
  assume "lockHolderPresent s" "onMessage ev s = Inr s'"
  with connect_event show ?thesis
    by (auto simp: lockHolderPresent_def onConnect_def join_def split: if_splits option.splits)
next
  case (lock_acquire_event u now)
  assume "lockHolderPresent s" "onMessage ev s = Inr s'"
  with lock_acquire_event show ?thesis
    by (cases "s_lock s") (auto simp: lockHolderPresent_def split: if_splits)
next
  case (lock_release_event u)
  assume "lockHolderPresent s" "onMessage ev s = Inr s'"
  with lock_release_event show ?thesis
    by (cases "s_lock s") (auto simp: lockHolderPresent_def split: if_splits)
next
  case (disconnect_event u)
  assume "lockHolderPresent s" "onMessage ev s = Inr s'"
  with disconnect_event show ?thesis
    by (auto simp: lockHolderPresent_def onDisconnect_def leave_def split: if_splits option.splits)
qed

lemma agrees_step:
  "broadcastAgrees sl \<Longrightarrow> broadcastAgrees (sessionStep sl ev)"
proof (cases "onMessage ev (fst sl)")
  case (Inl e)
  assume "broadcastAgrees sl"
  with Inl show ?thesis by (simp add: sessionStep_def)
next
  case (Inr s')
  assume a: "broadcastAgrees sl"
  show ?thesis
  proof (cases ev)
    case (connect_event u)
    with a Inr show ?thesis
      by (auto simp: broadcastAgrees_def sessionStep_def lastLockNews_append onConnect_def
          split: option.splits sum.splits)
  next
    case (lock_acquire_event u now)
    with a Inr show ?thesis
      by (cases "s_lock (fst sl)")
         (auto simp: broadcastAgrees_def sessionStep_def lastLockNews_append lockViewOf_def
          split: option.splits if_splits)
  next
    case (lock_release_event u)
    with a Inr show ?thesis
      by (cases "s_lock (fst sl)")
         (auto simp: broadcastAgrees_def sessionStep_def lastLockNews_append lockViewOf_def
          split: option.splits if_splits)
  next
    case (disconnect_event u)
    with a Inr show ?thesis
      by (cases "s_lock (fst sl)")
         (auto simp: broadcastAgrees_def sessionStep_def lastLockNews_append lockViewOf_def
          onDisconnect_def split: option.splits if_splits)
  qed
qed

lemma holder_sessionStep:
  "lockHolderPresent (fst sl) \<Longrightarrow> lockHolderPresent (fst (sessionStep sl ev))"
  by (cases "onMessage ev (fst sl)") (auto simp: sessionStep_def dest: holder_step)

lemma holder_fold:
  "lockHolderPresent (fst sl) \<Longrightarrow> lockHolderPresent (fst (foldl sessionStep sl evs))"
  by (induction evs arbitrary: sl) (simp_all add: holder_sessionStep)

lemma agrees_fold:
  "broadcastAgrees sl \<Longrightarrow> broadcastAgrees (foldl sessionStep sl evs)"
  by (induction evs arbitrary: sl) (simp_all add: agrees_step)

lemma holder_run: "lockHolderPresent (fst (runSession evs))"
  unfolding runSession_def
  by (rule holder_fold) (simp add: lockHolderPresent_def emptySession_def)

lemma agrees_run: "broadcastAgrees (runSession evs)"
  unfolding runSession_def
  by (rule agrees_fold) (simp add: broadcastAgrees_def emptySession_def)

lemma heldBySelf_iff: "heldBySelf token st = (ed_isLocked st \<and> ed_lockOwner st = Some token)"
  by (simp add: heldBySelf_def documentControls_def)

lemma observer_is_holder:
  assumes run: "runSession evs = (s, out)"
    and obs: "heldBySelf token (foldl handleMessage (editorInitial cs cur) (drop k out))"
  shows "holder (s_lock s) = Some token"
proof -
  let ?st = "foldl handleMessage (editorInitial cs cur) (drop k out)"
  from obs have v: "(ed_isLocked ?st, ed_lockOwner ?st) = (True, Some token)"
    by (simp add: heldBySelf_iff)
  have init: "(ed_isLocked (editorInitial cs cur), ed_lockOwner (editorInitial cs cur)) = (False, None)"
    by (simp add: editorInitial_def)
  from v view_after_messages [of "editorInitial cs cur" "drop k out"] init
  have "lastLockNews (drop k out) = Some (True, Some token)"
    by (auto split: option.splits)
  with lastLockNews_drop [of k out] have "lastLockNews out = Some (True, Some token)" by auto
  moreover from agrees_run [of evs] run have "broadcastAgrees (s, out)" by simp
  ultimately show ?thesis by (simp add: broadcastAgrees_def lockViewOf_def)
qed

lemma full_view_is_lock:
  assumes run: "runSession evs = (s, out)"
  shows "(ed_isLocked (foldl handleMessage (editorInitial cs cur) out),
          ed_lockOwner (foldl handleMessage (editorInitial cs cur) out)) = lockViewOf (s_lock s)"
proof -
  from agrees_run [of evs] run have a: "broadcastAgrees (s, out)" by simp
  show ?thesis
    using a view_after_messages [of "editorInitial cs cur" out]
    by (auto simp: broadcastAgrees_def lockViewOf_def editorInitial_def split: option.splits)
qed

lemma runSession_example: "runSession exampleEvents = (lockedByA, exampleBroadcast)"
  by (simp add: runSession_def exampleEvents_def exampleBroadcast_def lockedByA_def
      sessionStep_def emptySession_def onConnect_def join_def)

subsection \<open>Acquiring the lock\<close>

text \<open>
  C6. \<open>acquire\<close> by a participant moves the lock from Unlocked to Locked by that
  participant and succeeds; while another participant holds the lock it fails with
  LockHeld, which reports the holder, and the lock (with the rest of the session and
  the broadcast) stays as it was; while the participant holds the lock itself it
  succeeds and changes nothing. On the client, the message that reports the lock shows
  the release button to the holder and the holder's name to everybody else, and the
  message that reports the release shows the lock button again; the client's own
  \<open>acquireLock\<close> sends the request and leaves its state alone.
\<close>

theorem acquire_transitions:
  "acquire p now Unlocked = Inr (Locked p now)
   \<and> (h \<noteq> p \<longrightarrow> acquire p now (Locked h t) = Inl (LockHeld h))
   \<and> acquire p now (Locked p t) = Inr (Locked p t)
   \<and> (p \<in> set (s_participants s) \<and> s_lock s = Unlocked \<longrightarrow>
        sessionStep (s, out) (lock_acquire_event p now) =
          (s\<lparr>s_lock := Locked p now\<rparr>, out @ [document_locked (Some p)]))
   \<and> (s_lock s = Locked h t \<and> h \<noteq> p \<longrightarrow>
        sessionStep (s, out) (lock_acquire_event p now) = (s, out))
   \<and> (p \<in> set (s_participants s) \<and> s_lock s = Locked p t \<longrightarrow>
        fst (sessionStep (s, out) (lock_acquire_event p now)) = s)
   \<and> documentControls p (handleMessage st (document_locked (Some p))) = ReleaseLock
   \<and> (q \<noteq> p \<longrightarrow>
        documentControls q (handleMessage st (document_locked (Some p))) = LockedBy (Some p))
   \<and> documentControls q (handleMessage st document_unlocked) = LockForEditing
   \<and> acquireLock st = (st, [acquire_lock])"
  by (auto simp: sessionStep_def documentControls_def acquireLock_def)

text \<open>The statement on the example: A acquires, B is refused, A acquires again.\<close>

theorem acquire_transitions_witness:
  "acquire ''A'' ''t1'' Unlocked = Inr (Locked ''A'' ''t1'')
   \<and> acquire ''B'' ''t2'' (Locked ''A'' ''t1'') = Inl (LockHeld ''A'')
   \<and> acquire ''A'' ''t2'' (Locked ''A'' ''t1'') = Inr (Locked ''A'' ''t1'')
   \<and> sessionStep (twoParticipants, []) (lock_acquire_event ''A'' ''t1'') =
        (lockedByA, [document_locked (Some ''A'')])
   \<and> sessionStep (lockedByA, []) (lock_acquire_event ''B'' ''t2'') = (lockedByA, [])
   \<and> fst (sessionStep (lockedByA, []) (lock_acquire_event ''A'' ''t2'')) = lockedByA
   \<and> documentControls ''B'' (handleMessage (editorInitial [] Map.empty) (document_locked (Some ''A'')))
        = LockedBy (Some ''A'')"
proof -
  note inst1 = acquire_transitions [of "''A''" "''t1''" "''A''" "''t1''" twoParticipants "[]"
      "editorInitial [] Map.empty" "''B''"]
  note inst2 = acquire_transitions [of "''B''" "''t2''" "''A''" "''t1''" lockedByA "[]"
      "editorInitial [] Map.empty" "''A''"]
  note inst3 = acquire_transitions [of "''A''" "''t2''" "''A''" "''t1''" lockedByA "[]"
      "editorInitial [] Map.empty" "''B''"]
  have ne: "''A'' \<noteq> ''B''" "''B'' \<noteq> ''A''" by simp_all
  from inst1 have a: "acquire ''A'' ''t1'' Unlocked = Inr (Locked ''A'' ''t1'')" by (rule conjunct1)
  from inst2 [THEN conjunct2, THEN conjunct1, rule_format, OF ne(1)]
  have b: "acquire ''B'' ''t2'' (Locked ''A'' ''t1'') = Inl (LockHeld ''A'')" .
  from inst3 [THEN conjunct2, THEN conjunct2, THEN conjunct1]
  have c: "acquire ''A'' ''t2'' (Locked ''A'' ''t1'') = Inr (Locked ''A'' ''t1'')" .
  have "''A'' \<in> set (s_participants twoParticipants) \<and> s_lock twoParticipants = Unlocked"
    by (simp add: twoParticipants_def)
  from inst1 [THEN conjunct2, THEN conjunct2, THEN conjunct2, THEN conjunct1, rule_format, OF this]
  have d: "sessionStep (twoParticipants, []) (lock_acquire_event ''A'' ''t1'') =
        (lockedByA, [document_locked (Some ''A'')])"
    by (simp add: twoParticipants_def lockedByA_def)
  have "s_lock lockedByA = Locked ''A'' ''t1'' \<and> ''A'' \<noteq> ''B''"
    by (simp add: lockedByA_def)
  from inst2 [THEN conjunct2, THEN conjunct2, THEN conjunct2, THEN conjunct2, THEN conjunct1,
      rule_format, OF this]
  have e: "sessionStep (lockedByA, []) (lock_acquire_event ''B'' ''t2'') = (lockedByA, [])" .
  have "''A'' \<in> set (s_participants lockedByA) \<and> s_lock lockedByA = Locked ''A'' ''t1''"
    by (simp add: lockedByA_def)
  from inst3 [THEN conjunct2, THEN conjunct2, THEN conjunct2, THEN conjunct2, THEN conjunct2,
      THEN conjunct1, rule_format, OF this]
  have f: "fst (sessionStep (lockedByA, []) (lock_acquire_event ''A'' ''t2'')) = lockedByA" .
  from inst1 [THEN conjunct2, THEN conjunct2, THEN conjunct2, THEN conjunct2, THEN conjunct2,
      THEN conjunct2, THEN conjunct2, THEN conjunct1, rule_format, OF ne(2)]
  have g: "documentControls ''B''
      (handleMessage (editorInitial [] Map.empty) (document_locked (Some ''A''))) = LockedBy (Some ''A'')" .
  from a b c d e f g show ?thesis by simp
qed

subsection \<open>Mutual exclusion\<close>

text \<open>
  C1. Edit lock mutual exclusion. Take any sequence of connections, lock requests and
  disconnections on one session, and clients that run the editor's handler on the
  messages the session broadcast, each from the point where it joined. A client that
  sees the lock as held by itself is the holder the session records; so at most one
  participant sees the lock as held by itself at any time. The lock state is Unlocked or
  names one holder, and a client that has seen every message has exactly the session's
  lock state. Whatever messages reach the editor, and whatever actions reach the slice,
  their lock state names at most one holder. (Taken by themselves the two clients store
  what they are sent, a lock message without a user id included; that a locked state
  names its holder comes from the session.)
\<close>

theorem edit_lock_mutual_exclusion:
  assumes run: "runSession evs = (s, out)"
  shows "(\<forall>p q j k.
            heldBySelf p (foldl handleMessage (editorInitial cs cur) (drop j out)) \<and>
            heldBySelf q (foldl handleMessage (editorInitial cs' cur') (drop k out)) \<longrightarrow> p = q)
   \<and> (\<forall>p k. heldBySelf p (foldl handleMessage (editorInitial cs cur) (drop k out)) \<longrightarrow>
              holder (s_lock s) = Some p)
   \<and> (s_lock s = Unlocked \<or> (\<exists>h t. s_lock s = Locked h t))
   \<and> (\<forall>p q. holder (s_lock s) = Some p \<and> holder (s_lock s) = Some q \<longrightarrow> p = q)
   \<and> ed_isLocked (foldl handleMessage (editorInitial cs cur) out) = (holder (s_lock s) \<noteq> None)
   \<and> ed_lockOwner (foldl handleMessage (editorInitial cs cur) out) = holder (s_lock s)
   \<and> (\<forall>p q. heldBySelf p (foldl handleMessage st ms) \<and> heldBySelf q (foldl handleMessage st ms)
          \<longrightarrow> p = q)
   \<and> (\<forall>p q. lockHeldBy p (documentLock (foldl dispatch cst acts)) \<and>
            lockHeldBy q (documentLock (foldl dispatch cst acts)) \<longrightarrow> p = q)"
proof -
  have one: "holder (s_lock s) = Some p"
    if "heldBySelf p (foldl handleMessage (editorInitial cs0 cur0) (drop k out))"
    for p k cs0 cur0
    using run that by (rule observer_is_holder)
  have two: "p = q"
    if "heldBySelf p (foldl handleMessage (editorInitial cs cur) (drop j out))"
      and "heldBySelf q (foldl handleMessage (editorInitial cs' cur') (drop k out))"
    for p q j k
    using one [OF that(1)] one [OF that(2)] by simp
  have three: "s_lock s = Unlocked \<or> (\<exists>h t. s_lock s = Locked h t)"
    by (cases "s_lock s") simp_all
  from full_view_is_lock [OF run, of cs cur]
  have four: "ed_isLocked (foldl handleMessage (editorInitial cs cur) out) = (holder (s_lock s) \<noteq> None)"
    and five: "ed_lockOwner (foldl handleMessage (editorInitial cs cur) out) = holder (s_lock s)"
    by (simp_all add: lockViewOf_def)
  from two have c1: "\<forall>p q j k.
            heldBySelf p (foldl handleMessage (editorInitial cs cur) (drop j out)) \<and>
            heldBySelf q (foldl handleMessage (editorInitial cs' cur') (drop k out)) \<longrightarrow> p = q"
    by blast
  from one have c2: "\<forall>p k. heldBySelf p (foldl handleMessage (editorInitial cs cur) (drop k out)) \<longrightarrow>
              holder (s_lock s) = Some p"
    by blast
  have c4: "\<forall>p q. holder (s_lock s) = Some p \<and> holder (s_lock s) = Some q \<longrightarrow> p = q"
    by auto
  have c7: "\<forall>p q. heldBySelf p (foldl handleMessage st ms) \<and> heldBySelf q (foldl handleMessage st ms)
          \<longrightarrow> p = q"
    by (auto simp: heldBySelf_iff)
  have c8: "\<forall>p q. lockHeldBy p (documentLock (foldl dispatch cst acts)) \<and>
            lockHeldBy q (documentLock (foldl dispatch cst acts)) \<longrightarrow> p = q"
    by (auto simp: lockHeldBy_def)
  show ?thesis
    by (intro conjI c1 c2 three c4 four five c7 c8)
qed

text \<open>
  The statement on the example: A sees the lock as its own, and B, who joined after the
  first two messages, does not.
\<close>

theorem edit_lock_mutual_exclusion_witness:
  "runSession exampleEvents = (lockedByA, exampleBroadcast)
   \<and> heldBySelf ''A'' (foldl handleMessage (editorInitial [] Map.empty) exampleBroadcast)
   \<and> \<not> heldBySelf ''B'' (foldl handleMessage (editorInitial [] Map.empty) (drop 2 exampleBroadcast))
   \<and> holder (s_lock lockedByA) = Some ''A''
   \<and> lockHeldBy ''A'' (documentLock (foldl dispatch initialState
         [SetDocumentLock \<lparr>isLocked = True, lockedBy = Some ''A'', lockedAt = Some ''t1''\<rparr>]))
   \<and> \<not> lockHeldBy ''B'' (documentLock (foldl dispatch initialState
         [SetDocumentLock \<lparr>isLocked = True, lockedBy = Some ''A'', lockedAt = Some ''t1''\<rparr>]))"
proof -
  note inst = edit_lock_mutual_exclusion [OF runSession_example, of "[]" Map.empty "[]" Map.empty
      "editorInitial [] Map.empty" exampleBroadcast initialState
      "[SetDocumentLock \<lparr>isLocked = True, lockedBy = Some ''A'', lockedAt = Some ''t1''\<rparr>]"]
  have a: "heldBySelf ''A'' (foldl handleMessage (editorInitial [] Map.empty) (drop 0 exampleBroadcast))"
    by (simp add: exampleBroadcast_def heldBySelf_def documentControls_def editorInitial_def)
  have ne: "''A'' \<noteq> ''B''" by simp
  from inst [THEN conjunct1, rule_format, of "''A''" 0 "''B''" 2] a ne
  have b: "\<not> heldBySelf ''B'' (foldl handleMessage (editorInitial [] Map.empty) (drop 2 exampleBroadcast))"
    by blast
  from inst [THEN conjunct2, THEN conjunct1, rule_format, OF a]
  have c: "holder (s_lock lockedByA) = Some ''A''" .
  have d: "lockHeldBy ''A'' (documentLock (foldl dispatch initialState
         [SetDocumentLock \<lparr>isLocked = True, lockedBy = Some ''A'', lockedAt = Some ''t1''\<rparr>]))"
    by (simp add: lockHeldBy_def dispatch_def setDocumentLock_def)
  from inst [THEN conjunct2, THEN conjunct2, THEN conjunct2, THEN conjunct2, THEN conjunct2,
      THEN conjunct2, THEN conjunct2, rule_format, of "''A''" "''B''"] d ne
  have e: "\<not> lockHeldBy ''B'' (documentLock (foldl dispatch initialState
         [SetDocumentLock \<lparr>isLocked = True, lockedBy = Some ''A'', lockedAt = Some ''t1''\<rparr>]))"
    by blast
  from a b c d e runSession_example show ?thesis by simp
qed

subsection \<open>The holder disconnects\<close>

text \<open>
  C5. In every state that a session reaches, the holder of the lock is a participant:
  the lock is never held by somebody who has left. When the holder disconnects, the one
  step that removes it also leaves the lock Unlocked and broadcasts the release, which
  unlocks the clients. While the holder is recorded, an acquire by anybody else fails
  with LockHeld and changes nothing; right after the holder's disconnection an acquire
  by another participant succeeds.
\<close>

theorem lock_released_on_disconnect:
  assumes run: "runSession evs = (s, out)"
  shows "(\<forall>h. holder (s_lock s) = Some h \<longrightarrow> h \<in> set (s_participants s))
   \<and> (\<forall>h. holder (s_lock s) = Some h \<longrightarrow>
          s_lock (onDisconnect h s) = Unlocked
        \<and> h \<notin> set (s_participants (onDisconnect h s))
        \<and> sessionStep (s, out) (disconnect_event h) =
            (onDisconnect h s, out @ [other_message ''participant_left'', document_unlocked])
        \<and> (\<forall>q now. q \<noteq> h \<longrightarrow> acquire q now (s_lock s) = Inl (LockHeld h))
        \<and> (\<forall>q now. q \<noteq> h \<longrightarrow> sessionStep (s, out) (lock_acquire_event q now) = (s, out))
        \<and> (\<forall>q now. q \<noteq> h \<and> q \<in> set (s_participants s) \<longrightarrow>
              fst (sessionStep (sessionStep (s, out) (disconnect_event h)) (lock_acquire_event q now))
                = (onDisconnect h s)\<lparr>s_lock := Locked q now\<rparr>))
   \<and> (\<forall>p. p \<notin> set (s_participants (onDisconnect p s)))
   \<and> (\<forall>p. holder (s_lock (onDisconnect p s)) \<noteq> Some p)
   \<and> ed_isLocked (foldl handleMessage st [other_message ''participant_left'', document_unlocked])
        = False"
proof -
  from holder_run [of evs] run have inv: "lockHolderPresent s" by simp
  have present: "h \<in> set (s_participants s)" if "holder (s_lock s) = Some h" for h
    using inv that by (simp add: lockHolderPresent_def)
  have held: "s_lock (onDisconnect h s) = Unlocked
        \<and> h \<notin> set (s_participants (onDisconnect h s))
        \<and> sessionStep (s, out) (disconnect_event h) =
            (onDisconnect h s, out @ [other_message ''participant_left'', document_unlocked])
        \<and> (\<forall>q now. q \<noteq> h \<longrightarrow> acquire q now (s_lock s) = Inl (LockHeld h))
        \<and> (\<forall>q now. q \<noteq> h \<longrightarrow> sessionStep (s, out) (lock_acquire_event q now) = (s, out))
        \<and> (\<forall>q now. q \<noteq> h \<and> q \<in> set (s_participants s) \<longrightarrow>
              fst (sessionStep (sessionStep (s, out) (disconnect_event h)) (lock_acquire_event q now))
                = (onDisconnect h s)\<lparr>s_lock := Locked q now\<rparr>)"
    if h: "holder (s_lock s) = Some h" for h
  proof -
    from h obtain t where l: "s_lock s = Locked h t" by (cases "s_lock s") simp_all
    show ?thesis
      using l by (auto simp: onDisconnect_def leave_def sessionStep_def)
  qed
  have gone: "p \<notin> set (s_participants (onDisconnect p s))" for p
    by (simp add: onDisconnect_def leave_def)
  have freed: "holder (s_lock (onDisconnect p s)) \<noteq> Some p" for p
    by (simp add: onDisconnect_def)
  have last: "ed_isLocked (foldl handleMessage st [other_message ''participant_left'', document_unlocked])
        = False"
    by simp
  show ?thesis
    by (intro conjI allI impI present held gone freed last)
qed

text \<open>The statement on the example: A holds the lock and disconnects, then B acquires it.\<close>

theorem lock_released_on_disconnect_witness:
  "holder (s_lock lockedByA) = Some ''A''
   \<and> ''A'' \<in> set (s_participants lockedByA)
   \<and> onDisconnect ''A'' lockedByA = \<lparr>s_participants = [''B''], s_lock = Unlocked\<rparr>
   \<and> acquire ''B'' ''t2'' (s_lock lockedByA) = Inl (LockHeld ''A'')
   \<and> fst (sessionStep (sessionStep (lockedByA, exampleBroadcast) (disconnect_event ''A''))
            (lock_acquire_event ''B'' ''t2''))
       = \<lparr>s_participants = [''B''], s_lock = Locked ''B'' ''t2''\<rparr>"
proof -
  note inst = lock_released_on_disconnect [OF runSession_example, of "editorInitial [] Map.empty"]
  have h: "holder (s_lock lockedByA) = Some ''A''" by (simp add: lockedByA_def)
  from inst [THEN conjunct1, rule_format, OF h]
  have a: "''A'' \<in> set (s_participants lockedByA)" .
  note parts = inst [THEN conjunct2, THEN conjunct1, rule_format, OF h]
  have d: "onDisconnect ''A'' lockedByA = \<lparr>s_participants = [''B''], s_lock = Unlocked\<rparr>"
    by (simp add: onDisconnect_def lockedByA_def leave_def)
  have ne: "''B'' \<noteq> ''A''" by simp
  from parts [THEN conjunct2, THEN conjunct2, THEN conjunct2, THEN conjunct1, rule_format, OF ne]
  have b: "acquire ''B'' ''t2'' (s_lock lockedByA) = Inl (LockHeld ''A'')" .
  have "''B'' \<noteq> ''A'' \<and> ''B'' \<in> set (s_participants lockedByA)" by (simp add: lockedByA_def)
  from parts [THEN conjunct2, THEN conjunct2, THEN conjunct2, THEN conjunct2, THEN conjunct2,
      rule_format, OF this, of "''t2''"]
  have c: "fst (sessionStep (sessionStep (lockedByA, exampleBroadcast) (disconnect_event ''A''))
            (lock_acquire_event ''B'' ''t2''))
       = \<lparr>s_participants = [''B''], s_lock = Locked ''B'' ''t2''\<rparr>"
    by (simp add: d)
  from h a b c d show ?thesis by simp
qed

subsection \<open>Resolving a comment\<close>

text \<open>
  C7. \<open>resolve\<close> on an existing comment succeeds, sets the resolved flag of that comment
  and changes nothing else: the other fields of the comment keep their values and every
  other comment of the list stays as it is. On a comment that is already resolved it
  succeeds and returns the list unchanged, and resolving a second time changes nothing.
  The client takes no part in the decision: its \<open>resolveComment\<close> only emits the request
  for the comment id, and the viewer offers no resolve button for a resolved comment.
\<close>

theorem resolve_sets_flag_only:
  "find (\<lambda>c. tc_id c = cid) cs = Some c \<Longrightarrow>
     resolve cid cs = Inr (cs[firstIndex (\<lambda>c. tc_id c = cid) cs := markResolved c])
   \<and> firstIndex (\<lambda>c. tc_id c = cid) cs < length cs
   \<and> cs ! firstIndex (\<lambda>c. tc_id c = cid) cs = c
   \<and> tc_resolved (markResolved c) = True
   \<and> tc_id (markResolved c) = tc_id c
   \<and> tc_author (markResolved c) = tc_author c
   \<and> tc_content (markResolved c) = tc_content c
   \<and> tc_position (markResolved c) = tc_position c
   \<and> tc_createdAt (markResolved c) = tc_createdAt c
   \<and> tc_replies (markResolved c) = tc_replies c
   \<and> (tc_resolved c \<longrightarrow> resolve cid cs = Inr cs)
   \<and> resolve cid (cs[firstIndex (\<lambda>c. tc_id c = cid) cs := markResolved c]) =
       Inr (cs[firstIndex (\<lambda>c. tc_id c = cid) cs := markResolved c])
   \<and> resolveComment (connect d u svc) commentId =
       (if d = [] then [] else [comment_resolve (Some d) commentId])
   \<and> showsResolveButton (v\<lparr>vc_resolved := Some True\<rparr>) = False"
proof -
  assume f: "find (\<lambda>c. tc_id c = cid) cs = Some c"
  let ?P = "\<lambda>c. tc_id c = cid"
  let ?i = "firstIndex ?P cs"
  have r: "resolve cid cs = Inr (cs[?i := markResolved c])"
    using f by (simp add: resolve_def modifyFirst_found)
  have i: "?i < length cs" "cs ! ?i = c" using firstIndex_found [OF f] by simp_all
  have idc: "tc_id c = cid" using f by (auto simp: find_Some_iff)
  have fixed: "markResolved c = c" if "tc_resolved c"
    using that by (cases c) (simp add: markResolved_def)
  have same: "resolve cid cs = Inr cs" if "tc_resolved c"
    using r i fixed [OF that] by (simp add: list_update_same_conv)
  have P': "?P (markResolved c)" using idc by (simp add: markResolved_def)
  from find_update_first [OF f P']
  have f': "find ?P (cs[?i := markResolved c]) = Some (markResolved c)"
    and i': "firstIndex ?P (cs[?i := markResolved c]) = ?i" by simp_all
  have mm: "markResolved (markResolved c) = markResolved c" by (simp add: markResolved_def)
  have again: "resolve cid (cs[?i := markResolved c]) = Inr (cs[?i := markResolved c])"
    using f' by (simp add: resolve_def modifyFirst_found i' mm)
  have client: "resolveComment (connect d u svc) commentId =
       (if d = [] then [] else [comment_resolve (Some d) commentId])"
    by (simp add: resolveComment_def connect_def noDocumentId_def)
  have button: "showsResolveButton (v\<lparr>vc_resolved := Some True\<rparr>) = False"
    by (simp add: showsResolveButton_def)
  from r i same again client button show ?thesis by (simp add: markResolved_def)
qed

text \<open>
  The statement on the example thread: comment 1 becomes resolved, comment 3 was
  resolved already; comment 9 does not exist.
\<close>

theorem resolve_sets_flag_only_witness:
  "find (\<lambda>c. tc_id c = 1) exampleThread = Some (hd exampleThread)
   \<and> resolve 1 exampleThread = Inr (markResolved (hd exampleThread) # tl exampleThread)
   \<and> tc_resolved (markResolved (hd exampleThread))
   \<and> tc_replies (markResolved (hd exampleThread)) = tc_replies (hd exampleThread)
   \<and> find (\<lambda>c. tc_id c = 3) exampleThread = Some (last exampleThread)
   \<and> resolve 3 exampleThread = Inr exampleThread
   \<and> resolve 9 exampleThread = Inl CommentNotFound"
proof -
  have f1: "find (\<lambda>c. tc_id c = 1) exampleThread = Some (hd exampleThread)"
    by (simp add: exampleThread_def)
  have f3: "find (\<lambda>c. tc_id c = 3) exampleThread = Some (last exampleThread)"
    by (simp add: exampleThread_def)
  have i1: "firstIndex (\<lambda>c. tc_id c = 1) exampleThread = 0"
    by (simp add: exampleThread_def firstIndex_def)
  have r3: "tc_resolved (last exampleThread)" by (simp add: exampleThread_def)
  note one = resolve_sets_flag_only [OF f1]
  note three = resolve_sets_flag_only [OF f3]
  from one [THEN conjunct1, unfolded i1]
  have a: "resolve 1 exampleThread = Inr (markResolved (hd exampleThread) # tl exampleThread)"
    by (simp add: exampleThread_def)
  from one [THEN conjunct2, THEN conjunct2, THEN conjunct2, THEN conjunct1]
  have b: "tc_resolved (markResolved (hd exampleThread))" by simp
  from one [THEN conjunct2, THEN conjunct2, THEN conjunct2, THEN conjunct2, THEN conjunct2, THEN conjunct2, THEN conjunct2, THEN conjunct2, THEN conjunct2, THEN conjunct1]
  have c: "tc_replies (markResolved (hd exampleThread)) = tc_replies (hd exampleThread)" .
  from three [THEN conjunct2, THEN conjunct2, THEN conjunct2, THEN conjunct2, THEN conjunct2,
      THEN conjunct2, THEN conjunct2, THEN conjunct2, THEN conjunct2, THEN conjunct2, THEN conjunct1,
      rule_format, OF r3]
  have d: "resolve 3 exampleThread = Inr exampleThread" .
  have e: "resolve 9 exampleThread = Inl CommentNotFound"
    by (simp add: resolve_def exampleThread_def)
  from f1 f3 a b c d e show ?thesis by simp
qed

end
